theory Spec2Isabelle
  imports Main "HOL-Library.Sublist"
begin

section \<open>The jobs table and the ingestion gateway (jobService)\<close>

text \<open>
  Timestamps are milliseconds as integers. The table \<open>jobs\<close> is the list of its rows in
  insertion order; no uniqueness of the id column is assumed by the model, so that
  "inserted once" is a statement about the code and not about the table type.
  Ids are compared with plain equality.
\<close>

type_synonym timestamp = int

record stored_job =
  row_id :: string
  row_title :: string
  row_company :: string
  row_location :: string
  row_type :: string
  row_salary :: string
  row_posted_date :: string
  row_description :: "string option"
  row_url :: "string option"
  row_source :: string
  row_added_at :: timestamp
  row_expires_at :: timestamp

text \<open>
  A job object as it arrives from a scraper or the upload route. Every field but the id
  may be missing (\<open>None\<close>, for \<open>undefined\<close> and \<open>null\<close>) or the empty string; both are
  falsy for JavaScript's \<open>||\<close>.
\<close>

record raw_job =
  job_id :: string
  job_title :: "string option"
  job_company :: "string option"
  job_location :: "string option"
  job_type :: "string option"
  job_salary :: "string option"
  job_posted :: "string option"
  job_description :: "string option"
  job_url :: "string option"
  job_source :: "string option"

definition js_or :: "string option \<Rightarrow> string \<Rightarrow> string" where
  "js_or v d = (case v of None \<Rightarrow> d | Some s \<Rightarrow> if s = [] then d else s)"

text \<open>
  What the JavaScript runtime supplies: the current time (\<open>new Date()\<close>), the calendar
  arithmetic of \<open>setMonth(getMonth() + 1)\<close> and \<open>toLocaleDateString\<close>. One reading of the
  clock serves the whole call.
\<close>

record js_env =
  now :: timestamp
  plus_month :: "timestamp \<Rightarrow> timestamp"
  locale_date :: "timestamp \<Rightarrow> string"

datatype db_error = ConnectionError

text \<open>
  Storage failures: for the record at position \<open>i\<close> of the batch, the existence check
  (\<open>SELECT\<close>) or the \<open>INSERT\<close> may throw. A failed statement changes nothing.
\<close>

datatype fault = NoFault | SelectFails | InsertFails

definition insert_values :: "js_env \<Rightarrow> raw_job \<Rightarrow> stored_job" where
  "insert_values env job =
     \<lparr> row_id = job_id job,
       row_title = js_or (job_title job) ''Unknown Title'',
       row_company = js_or (job_company job) ''Unknown Company'',
       row_location = js_or (job_location job) ''Remote'',
       row_type = js_or (job_type job) ''Full-time'',
       row_salary = js_or (job_salary job) ''Not listed'',
       row_posted_date = js_or (job_posted job) (locale_date env (now env)),
       row_description = Some (js_or (job_description job) ''''),
       row_url = Some (js_or (job_url job) ''''),
       row_source = js_or (job_source job) ''External'',
       row_added_at = now env,
       row_expires_at = plus_month env (now env) \<rparr>"

definition select_id :: "stored_job list \<Rightarrow> string \<Rightarrow> stored_job list" where
  "select_id tbl k = filter (\<lambda>r. row_id r = k) tbl"

text \<open>
  The \<open>for (const job of newJobs)\<close> loop inside the \<open>try\<close> block. The result is
  \<open>(completed, table, addedCount)\<close>; \<open>completed = False\<close> is the jump to the \<open>catch\<close>
  block, which leaves the loop for good.
\<close>

fun ingest_loop ::
  "js_env \<Rightarrow> (nat \<Rightarrow> fault) \<Rightarrow> nat \<Rightarrow> raw_job list \<Rightarrow> stored_job list \<Rightarrow> nat
     \<Rightarrow> bool \<times> stored_job list \<times> nat" where
  "ingest_loop env flt i [] tbl added = (True, tbl, added)"
| "ingest_loop env flt i (job # rest) tbl added =
     (if flt i = SelectFails then (False, tbl, added)
      else if select_id tbl (job_id job) = [] then
        (if flt i = InsertFails then (False, tbl, added)
         else ingest_loop env flt (Suc i) rest (tbl @ [insert_values env job]) (Suc added))
      else ingest_loop env flt (Suc i) rest tbl added)"

text \<open>
  \<open>addJobsToSystem\<close>: returns \<open>(result, table, error logged)\<close>. \<open>pool.getConnection()\<close> is
  outside the \<open>try\<close>, so its failure rejects the call; the \<open>catch\<close> block logs and falls
  through to \<open>return addedCount\<close>.
\<close>

definition addJobsToSystem ::
  "js_env \<Rightarrow> bool \<Rightarrow> (nat \<Rightarrow> fault) \<Rightarrow> stored_job list \<Rightarrow> raw_job list
     \<Rightarrow> (db_error + nat) \<times> stored_job list \<times> bool" where
  "addJobsToSystem env connects flt tbl newJobs =
     (if newJobs = [] then (Inr 0, tbl, False)
      else if \<not> connects then (Inl ConnectionError, tbl, False)
      else (case ingest_loop env flt 0 newJobs tbl 0 of
              (completed, tbl', addedCount) \<Rightarrow> (Inr addedCount, tbl', \<not> completed)))"


subsection \<open>The read interface\<close>

text \<open>
  Strings are sequences of code units below 256. \<open>js_space\<close> holds the white space of
  that range, which is what \<open>String.prototype.trim\<close> and the regular expression class
  \<open>\s\<close> remove or match there.
\<close>

definition js_space :: "char \<Rightarrow> bool" where
  "js_space c = (c \<in> set [CHR 0x09, CHR 0x0A, CHR 0x0B, CHR 0x0C, CHR 0x0D, CHR 0x20, CHR 0xA0])"

definition js_trim :: "string \<Rightarrow> string" where
  "js_trim s = rev (dropWhile js_space (rev (dropWhile js_space s)))"

record job_filters =
  f_search :: "string option"
  f_location :: "string option"

text \<open>\<open>filters && filters.x && filters.x.trim() !== ''\<close>: the untrimmed term when it applies.\<close>

definition filter_term :: "job_filters option \<Rightarrow> (job_filters \<Rightarrow> string option) \<Rightarrow> string option" where
  "filter_term filters field =
     (case filters of
        None \<Rightarrow> None
      | Some f \<Rightarrow>
          (case field f of
             None \<Rightarrow> None
           | Some s \<Rightarrow> if s \<noteq> [] \<and> js_trim s \<noteq> [] then Some s else None))"

text \<open>
  The \<open>WHERE\<close> clause that \<open>getJobs\<close> assembles. The semantics of SQL's \<open>LIKE\<close> belongs to
  the database and is a parameter \<open>like value pattern\<close>; on a \<open>NULL\<close> column it is not true.
\<close>

definition like_null :: "(string \<Rightarrow> string \<Rightarrow> bool) \<Rightarrow> string option \<Rightarrow> string \<Rightarrow> bool" where
  "like_null like v p = (case v of None \<Rightarrow> False | Some s \<Rightarrow> like s p)"

definition getJobs_where ::
  "(string \<Rightarrow> string \<Rightarrow> bool) \<Rightarrow> timestamp \<Rightarrow> job_filters option \<Rightarrow> stored_job \<Rightarrow> bool" where
  "getJobs_where like now_db filters r =
     (row_expires_at r > now_db
      \<and> (case filter_term filters f_search of
            None \<Rightarrow> True
          | Some s \<Rightarrow>
              like (row_title r) (''%'' @ s @ ''%'')
              \<or> like (row_company r) (''%'' @ s @ ''%'')
              \<or> like_null like (row_description r) (''%'' @ s @ ''%''))
      \<and> (case filter_term filters f_location of
            None \<Rightarrow> True
          | Some l \<Rightarrow> like (row_location r) (''%'' @ l @ ''%'')))"

definition order_by_added_at_desc :: "stored_job list \<Rightarrow> stored_job list" where
  "order_by_added_at_desc rows = rev (sort_key row_added_at rows)"

text \<open>
  \<open>getJobs\<close> returns the selected rows, each with the extra property \<open>posted\<close>, and the
  table, which a \<open>SELECT\<close> leaves as it is. A failing query is caught and gives \<open>[]\<close>.
\<close>

definition getJobs ::
  "(string \<Rightarrow> string \<Rightarrow> bool) \<Rightarrow> timestamp \<Rightarrow> bool \<Rightarrow> job_filters option \<Rightarrow> stored_job list
     \<Rightarrow> (stored_job \<times> string) list \<times> stored_job list" where
  "getJobs like now_db query_ok filters tbl =
     (if \<not> query_ok then ([], tbl)
      else (map (\<lambda>row. (row, row_posted_date row))
              (order_by_added_at_desc (filter (getJobs_where like now_db filters) tbl)), tbl))"

section \<open>The enrichment worker (jobEnricherService)\<close>

definition BATCH_SIZE :: nat where "BATCH_SIZE = 5"
definition MAX_RETRIES :: nat where "MAX_RETRIES = 2"

text \<open>
  A detail page as the description extractor chosen by \<open>job.source\<close> sees it. The four
  extractors share one shape: inside a \<open>try\<close>, wait for a selector and evaluate a selector
  cascade in the page; return \<open>description || 'Description not available'\<close>, or \<open>null\<close> from
  the \<open>catch\<close>. \<open>extractor_throws\<close> says that the wait or the evaluation throws,
  \<open>evaluated\<close> is what \<open>page.evaluate\<close> returns.
\<close>

record page =
  extractor_throws :: bool
  evaluated :: "string option"

definition extract_description :: "page \<Rightarrow> string option" where
  "extract_description p =
     (if extractor_throws p then None
      else Some (js_or (evaluated p) ''Description not available''))"

text \<open>
  One attempt of \<open>fetchJobDescription\<close>: opening the page, navigating or waiting throws
  (\<open>Threw\<close>), or the page loads.
\<close>

datatype fetch_outcome = Threw | Loaded page

text \<open>
  \<open>fetchJobDescription\<close> with the outcome of the attempt made at each \<open>retryCount\<close>. The
  result is the description (or \<open>null\<close>) and the number of attempts made.
\<close>

definition one_more :: "string option \<times> nat \<Rightarrow> string option \<times> nat" where
  "one_more r = (fst r, Suc (snd r))"

function fetchJobDescription :: "(nat \<Rightarrow> fetch_outcome) \<Rightarrow> nat \<Rightarrow> string option \<times> nat" where
  "fetchJobDescription attempt retryCount =
     (case attempt retryCount of
        Loaded p \<Rightarrow>
          (case extract_description p of
             Some description \<Rightarrow>
               if description \<noteq> [] \<and> length description > 50 then (Some description, 1)
               else if retryCount < MAX_RETRIES
                 then one_more (fetchJobDescription attempt (retryCount + 1))
               else (None, 1)
           | None \<Rightarrow>
               if retryCount < MAX_RETRIES
                 then one_more (fetchJobDescription attempt (retryCount + 1))
               else (None, 1))
      | Threw \<Rightarrow>
          if retryCount < MAX_RETRIES
            then one_more (fetchJobDescription attempt (retryCount + 1))
          else (None, 1))"
  by pat_completeness auto
termination
  by (relation "measure (\<lambda>(attempt, retryCount). MAX_RETRIES - retryCount)") auto

text \<open>
  What surrounds one enrichment run: whether the selection query and the browser launch
  succeed, the attempt outcomes of each job, whether the \<open>UPDATE\<close> for a job id succeeds,
  and the database's \<open>LIKE\<close>.
\<close>

record enrich_env =
  select_ok :: bool
  launch_ok :: bool
  attempts :: "stored_job \<Rightarrow> nat \<Rightarrow> fetch_outcome"
  update_ok :: "string \<Rightarrow> bool"
  sql_like :: "string \<Rightarrow> string \<Rightarrow> bool"

definition updateJobDescription ::
  "enrich_env \<Rightarrow> string \<Rightarrow> string \<Rightarrow> stored_job list \<Rightarrow> bool \<times> stored_job list" where
  "updateJobDescription env jobId description tbl =
     (if update_ok env jobId
      then (True, map (\<lambda>r. if row_id r = jobId then r\<lparr>row_description := Some description\<rparr> else r) tbl)
      else (False, tbl))"

definition needs_enrichment :: "(string \<Rightarrow> string \<Rightarrow> bool) \<Rightarrow> stored_job \<Rightarrow> bool" where
  "needs_enrichment like r =
     ((case row_url r of None \<Rightarrow> False | Some u \<Rightarrow> u \<noteq> [] \<and> u \<noteq> ''#'')
      \<and> (case row_description r of
            None \<Rightarrow> True
          | Some d \<Rightarrow> d = [] \<or> d = ''View posting for details''
                       \<or> like d ''Job scraped from%'' \<or> length d < 100))"

definition getJobsNeedingEnrichment :: "enrich_env \<Rightarrow> stored_job list \<Rightarrow> stored_job list" where
  "getJobsNeedingEnrichment env tbl =
     (if \<not> select_ok env then []
      else take 100 (order_by_added_at_desc (filter (needs_enrichment (sql_like env)) tbl)))"

text \<open>What the run does that can be observed from outside, in the order it happens.\<close>

datatype event =
    BatchStarted "string list"
  | Enriched string
  | FailedUpdate string
  | FailedFetch string
  | CoolDown
  | BrowserClosed

record run_state =
  jobs_table :: "stored_job list"
  enrichedCount :: nat
  failedCount :: nat
  run_log :: "event list"

text \<open>
  The inner loop \<open>for (let j = 0; j < batch.length; j++)\<close> over a batch and the settled
  results of its fetches. \<open>fetchJobDescription\<close> never rejects, so every result is
  fulfilled and \<open>result.value\<close> is the description or \<open>null\<close>; the fetches of a batch do
  not depend on each other.
\<close>

fun settle_batch ::
  "enrich_env \<Rightarrow> (stored_job \<times> string option) list \<Rightarrow> run_state \<Rightarrow> run_state" where
  "settle_batch env [] st = st"
| "settle_batch env ((job, val) # rest) st =
     settle_batch env rest
       (case val of
          Some description \<Rightarrow>
            if description \<noteq> [] then
              (case updateJobDescription env (row_id job) description (jobs_table st) of
                 (success, tbl') \<Rightarrow>
                   if success
                   then st\<lparr>jobs_table := tbl', enrichedCount := enrichedCount st + 1,
                            run_log := run_log st @ [Enriched (row_id job)]\<rparr>
                   else st\<lparr>jobs_table := tbl', failedCount := failedCount st + 1,
                            run_log := run_log st @ [FailedUpdate (row_id job)]\<rparr>)
            else st\<lparr>failedCount := failedCount st + 1,
                     run_log := run_log st @ [FailedFetch (row_id job)]\<rparr>
        | None \<Rightarrow> st\<lparr>failedCount := failedCount st + 1,
                       run_log := run_log st @ [FailedFetch (row_id job)]\<rparr>)"

text \<open>The batch loop \<open>for (let i = 0; i < jobs.length; i += BATCH_SIZE)\<close>.\<close>

function batch_loop :: "enrich_env \<Rightarrow> stored_job list \<Rightarrow> nat \<Rightarrow> run_state \<Rightarrow> run_state" where
  "batch_loop env jobs i st =
     (if i < length jobs then
        (let batch = take BATCH_SIZE (drop i jobs);
             results = map (\<lambda>job. fst (fetchJobDescription (attempts env job) 0)) batch;
             st1 = settle_batch env (zip batch results)
                     (st\<lparr>run_log := run_log st @ [BatchStarted (map row_id batch)]\<rparr>);
             st2 = (if i + BATCH_SIZE < length jobs
                    then st1\<lparr>run_log := run_log st1 @ [CoolDown]\<rparr> else st1)
         in batch_loop env jobs (i + BATCH_SIZE) st2)
      else st)"
  by pat_completeness auto
termination
  by (relation "measure (\<lambda>(env, jobs, i, st). length jobs - i)") (auto simp: BATCH_SIZE_def)

record summary =
  total :: nat
  enriched :: nat
  failed :: nat

datatype run_error = LaunchFailed

text \<open>
  \<open>enrichJobDescriptions\<close>: the summary or the error the call rejects with, the table
  after the run and the log. \<open>puppeteer.launch\<close> is outside every \<open>try\<close>.
\<close>

definition enrichJobDescriptions ::
  "enrich_env \<Rightarrow> stored_job list \<Rightarrow> (run_error + summary) \<times> stored_job list \<times> event list" where
  "enrichJobDescriptions env tbl =
     (let jobs = getJobsNeedingEnrichment env tbl in
      if jobs = [] then (Inr \<lparr>total = 0, enriched = 0, failed = 0\<rparr>, tbl, [])
      else if \<not> launch_ok env then (Inl LaunchFailed, tbl, [])
      else
        (let st = batch_loop env jobs 0
                    \<lparr>jobs_table = tbl, enrichedCount = 0, failedCount = 0, run_log = []\<rparr>
         in (Inr \<lparr>total = length jobs, enriched = enrichedCount st, failed = failedCount st\<rparr>,
             jobs_table st, run_log st @ [BrowserClosed])))"

section \<open>The crawl scheduler (extension popup)\<close>

record geo_location =
  loc_name :: string
  geoId :: "string option"

text \<open>
  The popup's configuration for one crawl: \<open>selectedLocations\<close>, \<open>config.keywords\<close>, the
  check boxes, and the browser's \<open>encodeURIComponent\<close>.
\<close>

record crawl_config =
  selectedLocations :: "geo_location list"
  config_keywords :: "string list"
  remoteOnly :: bool
  easyApplyOnly :: bool
  autoUpload :: bool
  encodeURIComponent :: "string \<Rightarrow> string"

text \<open>
  What happens around the search step at \<open>(location index, keyword index)\<close>:
  \<^item> the navigation: \<open>chrome.tabs.query\<close> or \<open>chrome.tabs.update\<close> throws, no active tab
    is found, or the tab is navigated;
  \<^item> the extraction: the tab query of \<open>scrapeCurrentPage\<close> rejects, the content script
    gives no jobs (or \<open>chrome.runtime.lastError\<close> is set), or it responds with jobs; the
    response arrives before the next search begins;
  \<^item> the user's click on Stop: none during this step, one after the step has begun and
    before the 5 s settle timer fires, one while the page is being scraped, or one
    during the delay before the next search.
\<close>

datatype navigation = NavThrows | NoTab | NavOk
datatype 'j scrape = QueryRejected | NoJobs | Found "'j list"
datatype stop_click = NoStop | StopBeforeSettle | StopWhileScraping | StopDuringDelay

record 'j step_env =
  nav :: navigation
  scraped :: "'j scrape"
  stop :: stop_click

text \<open>
  The popup's global variables, with two logs: \<open>searches\<close> holds the
  (location, keyword) of every step begun (\<open>updateStepInfo\<close>), \<open>navigations\<close> the URLs
  handed to \<open>chrome.tabs.update\<close>; \<open>uploaded\<close> is the body of the automatic upload.
\<close>

record 'j crawl_state =
  isRunning :: bool
  currentLocationIndex :: nat
  currentKeywordIndex :: nat
  allJobs :: "'j list"
  searches :: "(string \<times> string) list"
  navigations :: "string list"
  uploaded :: "'j list option"
  type_error :: bool

definition linkedin_url :: "crawl_config \<Rightarrow> geo_location \<Rightarrow> string \<Rightarrow> string" where
  "linkedin_url cfg location keyword =
     ''https://www.linkedin.com/jobs/search/?keywords='' @ encodeURIComponent cfg keyword
       @ ''&origin=JOB_SEARCH_PAGE_SEARCH_BUTTON&refresh=true''
       @ (case geoId location of
            None \<Rightarrow> []
          | Some g \<Rightarrow> if g \<noteq> [] then ''&geoId='' @ g else [])
       @ (if remoteOnly cfg then ''&f_WT=2'' else [])
       @ (if easyApplyOnly cfg then ''&f_AL=true'' else [])"

text \<open>The click handler of the Stop button, as far as the scheduler's variables go.\<close>

definition stopBtn_click :: "'j crawl_state \<Rightarrow> 'j crawl_state" where
  "stopBtn_click st = st\<lparr>isRunning := False\<rparr>"

text \<open>The callback of \<open>chrome.tabs.sendMessage\<close> in \<open>scrapeCurrentPage\<close>.\<close>

definition scrapeCurrentPage :: "'j scrape \<Rightarrow> 'j crawl_state \<Rightarrow> 'j crawl_state" where
  "scrapeCurrentPage r st =
     (case r of
        Found jobs \<Rightarrow> if jobs \<noteq> [] then st\<lparr>allJobs := allJobs st @ jobs\<rparr> else st
      | _ \<Rightarrow> st)"

text \<open>
  \<open>scrapeNextLocation\<close> and \<open>scrapeNextKeyword\<close> call each other, directly or from a
  timer; the result is the state when no call and no timer is left. With the location
  index out of range, \<open>location.name\<close> is a \<open>TypeError\<close>.
\<close>

function scrapeNextLocation ::
    "crawl_config \<Rightarrow> (nat \<Rightarrow> nat \<Rightarrow> 'j step_env) \<Rightarrow> 'j crawl_state \<Rightarrow> 'j crawl_state"
  and scrapeNextKeyword ::
    "crawl_config \<Rightarrow> (nat \<Rightarrow> nat \<Rightarrow> 'j step_env) \<Rightarrow> 'j crawl_state \<Rightarrow> 'j crawl_state"
where
  "scrapeNextLocation cfg env st =
     (if \<not> isRunning st \<or> currentLocationIndex st \<ge> length (selectedLocations cfg) then
        st\<lparr>isRunning := False,
           uploaded := (if autoUpload cfg \<and> allJobs st \<noteq> [] then Some (allJobs st)
                        else uploaded st)\<rparr>
      else scrapeNextKeyword cfg env (st\<lparr>currentKeywordIndex := 0\<rparr>))"
| "scrapeNextKeyword cfg env st =
     (if \<not> isRunning st then st
      else if currentKeywordIndex st \<ge> length (config_keywords cfg) then
        scrapeNextLocation cfg env (st\<lparr>currentLocationIndex := currentLocationIndex st + 1\<rparr>)
      else if currentLocationIndex st \<ge> length (selectedLocations cfg) then
        st\<lparr>type_error := True\<rparr>
      else
        (let location = selectedLocations cfg ! currentLocationIndex st;
             keyword = config_keywords cfg ! currentKeywordIndex st;
             e = env (currentLocationIndex st) (currentKeywordIndex st);
             st0 = st\<lparr>searches := searches st @ [(loc_name location, keyword)]\<rparr>
         in case nav e of
              NavThrows \<Rightarrow>
                (let st1 = st0\<lparr>currentKeywordIndex := currentKeywordIndex st + 1\<rparr>
                 in if stop e \<noteq> NoStop then stopBtn_click st1
                    else scrapeNextKeyword cfg env st1)
            | NoTab \<Rightarrow> (if stop e \<noteq> NoStop then stopBtn_click st0 else st0)
            | NavOk \<Rightarrow>
                (let st1 = st0\<lparr>navigations := navigations st @ [linkedin_url cfg location keyword]\<rparr>
                 in if stop e = StopBeforeSettle then stopBtn_click st1
                    else if scraped e = QueryRejected then
                      (if stop e \<noteq> NoStop then stopBtn_click st1 else st1)
                    else
                      (let st2 = (scrapeCurrentPage (scraped e) st1)
                                   \<lparr>currentKeywordIndex := currentKeywordIndex st + 1\<rparr>
                       in if stop e \<noteq> NoStop then stopBtn_click st2
                          else scrapeNextKeyword cfg env st2))))"
  by pat_completeness auto
termination
  by (relation "measures
         [\<lambda>x. case x of
                Inl (cfg, env, st) \<Rightarrow> 2 * (length (selectedLocations cfg) - currentLocationIndex st)
              | Inr (cfg, env, st) \<Rightarrow>
                  2 * (length (selectedLocations cfg) - Suc (currentLocationIndex st)) + 1,
          \<lambda>x. case x of
                Inl (cfg, env, st) \<Rightarrow> 0
              | Inr (cfg, env, st) \<Rightarrow> length (config_keywords cfg) - currentKeywordIndex st]")
     (auto simp: scrapeCurrentPage_def split: scrape.splits)

text \<open>
  The click handler of the Start button, once the locations are chosen: it refuses an
  empty keyword list, resets the variables and starts with the first location. This is
  a click while no timer of an earlier crawl is pending, followed to the end of the
  crawl it starts.
\<close>

definition startBtn_click ::
  "crawl_config \<Rightarrow> (nat \<Rightarrow> nat \<Rightarrow> 'j step_env) \<Rightarrow> 'j crawl_state option" where
  "startBtn_click cfg env =
     (if config_keywords cfg = [] then None
      else Some (scrapeNextLocation cfg env
             \<lparr>isRunning = True, currentLocationIndex = 0, currentKeywordIndex = 0, allJobs = [],
              searches = [], navigations = [], uploaded = None, type_error = False\<rparr>))"

subsection \<open>The popup as an event loop: clicks and timers\<close>

text \<open>
  The functions above follow one crawl as one chain, with the click on Stop placed by
  the step environment. Here the clicks are events of their own and the timers that
  \<open>setTimeout\<close> registers are kept, so that a crawl can be started while timers of a
  stopped crawl are pending: the Stop handler clears none. A pending timer is its
  due time and its callback: the settle callback of a search (5 s after the navigation)
  or the callback \<open>if (isRunning) scrapeNextKeyword()\<close> (after the delay between
  searches, or 2 s after a navigation error). Awaited browser calls and callbacks take
  no time; the \<open>stop\<close> field of the step environment is not read.
\<close>

datatype timer_kind = SettleTimer | DelayTimer

record timer =
  due :: nat
  kind :: timer_kind

text \<open>
  The popup: its variables, the pending timers in the order in which they fire, the
  time, the step whose page the tab shows, and the largest number of timers that were
  ever pending together.
\<close>

record 'j popup =
  vars :: "'j crawl_state"
  timers :: "timer list"
  clock :: nat
  tab_page :: "(nat \<times> nat) option"
  max_pending :: nat

definition setTimeout :: "timer_kind \<Rightarrow> nat \<Rightarrow> 'j popup \<Rightarrow> 'j popup" where
  "setTimeout k delay p =
     (let t = \<lparr>due = clock p + delay, kind = k\<rparr>;
          ts = takeWhile (\<lambda>u. due u \<le> due t) (timers p) @ t # dropWhile (\<lambda>u. due u \<le> due t) (timers p)
      in p\<lparr>timers := ts, max_pending := max (max_pending p) (length ts)\<rparr>)"

text \<open>
  A call of \<open>scrapeNextLocation\<close> or \<open>scrapeNextKeyword\<close> up to the point where it has
  set its timer or returned.
\<close>

function scrapeNextLocation_call ::
    "crawl_config \<Rightarrow> (nat \<Rightarrow> nat \<Rightarrow> 'j step_env) \<Rightarrow> 'j popup \<Rightarrow> 'j popup"
  and scrapeNextKeyword_call ::
    "crawl_config \<Rightarrow> (nat \<Rightarrow> nat \<Rightarrow> 'j step_env) \<Rightarrow> 'j popup \<Rightarrow> 'j popup"
where
  "scrapeNextLocation_call cfg env p =
     (if \<not> isRunning (vars p)
         \<or> currentLocationIndex (vars p) \<ge> length (selectedLocations cfg) then
        p\<lparr>vars := (vars p)
            \<lparr>isRunning := False,
             uploaded := (if autoUpload cfg \<and> allJobs (vars p) \<noteq> [] then Some (allJobs (vars p))
                          else uploaded (vars p))\<rparr>\<rparr>
      else scrapeNextKeyword_call cfg env (p\<lparr>vars := (vars p)\<lparr>currentKeywordIndex := 0\<rparr>\<rparr>))"
| "scrapeNextKeyword_call cfg env p =
     (if \<not> isRunning (vars p) then p
      else if currentKeywordIndex (vars p) \<ge> length (config_keywords cfg) then
        scrapeNextLocation_call cfg env
          (p\<lparr>vars := (vars p)\<lparr>currentLocationIndex := currentLocationIndex (vars p) + 1\<rparr>\<rparr>)
      else if currentLocationIndex (vars p) \<ge> length (selectedLocations cfg) then
        p\<lparr>vars := (vars p)\<lparr>type_error := True\<rparr>\<rparr>
      else
        (let location = selectedLocations cfg ! currentLocationIndex (vars p);
             keyword = config_keywords cfg ! currentKeywordIndex (vars p);
             e = env (currentLocationIndex (vars p)) (currentKeywordIndex (vars p));
             st0 = (vars p)\<lparr>searches := searches (vars p) @ [(loc_name location, keyword)]\<rparr>
         in case nav e of
              NavThrows \<Rightarrow>
                setTimeout DelayTimer 2000
                  (p\<lparr>vars := st0\<lparr>currentKeywordIndex := currentKeywordIndex (vars p) + 1\<rparr>\<rparr>)
            | NoTab \<Rightarrow> p\<lparr>vars := st0\<rparr>
            | NavOk \<Rightarrow>
                setTimeout SettleTimer 5000
                  (p\<lparr>vars := st0\<lparr>navigations := navigations (vars p) @ [linkedin_url cfg location keyword]\<rparr>,
                     tab_page := Some (currentLocationIndex (vars p), currentKeywordIndex (vars p))\<rparr>)))"
  by pat_completeness auto
termination
  by (relation "measures
         [\<lambda>x. case x of
                Inl (cfg, env, p) \<Rightarrow>
                  2 * (length (selectedLocations cfg) - currentLocationIndex (vars p))
              | Inr (cfg, env, p) \<Rightarrow>
                  2 * (length (selectedLocations cfg) - Suc (currentLocationIndex (vars p))) + 1]")
     auto

text \<open>
  The two timer callbacks. The settle callback scrapes the page that the tab shows;
  \<open>d\<close> is \<open>config.delayBetweenSearches || 3000\<close>.
\<close>

definition settle_callback ::
  "nat \<Rightarrow> (nat \<Rightarrow> nat \<Rightarrow> 'j step_env) \<Rightarrow> 'j popup \<Rightarrow> 'j popup" where
  "settle_callback d env p =
     (if \<not> isRunning (vars p) then p
      else
        (case (case tab_page p of None \<Rightarrow> NoJobs | Some (li, ki) \<Rightarrow> scraped (env li ki)) of
           QueryRejected \<Rightarrow> p
         | r \<Rightarrow>
             setTimeout DelayTimer d
               (p\<lparr>vars := (scrapeCurrentPage r (vars p))
                     \<lparr>currentKeywordIndex := currentKeywordIndex (vars p) + 1\<rparr>\<rparr>)))"

definition delay_callback ::
  "crawl_config \<Rightarrow> (nat \<Rightarrow> nat \<Rightarrow> 'j step_env) \<Rightarrow> 'j popup \<Rightarrow> 'j popup" where
  "delay_callback cfg env p = (if isRunning (vars p) then scrapeNextKeyword_call cfg env p else p)"

datatype click = ClickStart | ClickStop

text \<open>The click handlers of the Start button (the locations being chosen) and the Stop button.\<close>

definition on_click ::
  "crawl_config \<Rightarrow> (nat \<Rightarrow> nat \<Rightarrow> 'j step_env) \<Rightarrow> click \<Rightarrow> 'j popup \<Rightarrow> 'j popup" where
  "on_click cfg env c p =
     (case c of
        ClickStart \<Rightarrow>
          if config_keywords cfg = [] then p
          else scrapeNextLocation_call cfg env
                 (p\<lparr>vars := (vars p)\<lparr>isRunning := True, allJobs := [], currentLocationIndex := 0,
                                  currentKeywordIndex := 0\<rparr>\<rparr>)
      | ClickStop \<Rightarrow> p\<lparr>vars := stopBtn_click (vars p)\<rparr>)"

definition on_timer ::
  "crawl_config \<Rightarrow> nat \<Rightarrow> (nat \<Rightarrow> nat \<Rightarrow> 'j step_env) \<Rightarrow> timer \<Rightarrow> 'j popup \<Rightarrow> 'j popup" where
  "on_timer cfg d env t p =
     (case kind t of
        SettleTimer \<Rightarrow> settle_callback d env p
      | DelayTimer \<Rightarrow> delay_callback cfg env p)"

text \<open>
  The next event: the first pending timer, unless a click comes before it is due. The
  clicks are given with their times, in the order of time.
\<close>

definition next_event ::
  "crawl_config \<Rightarrow> nat \<Rightarrow> (nat \<Rightarrow> nat \<Rightarrow> 'j step_env) \<Rightarrow> (nat \<times> click) list \<Rightarrow> 'j popup
     \<Rightarrow> (nat \<times> click) list \<times> 'j popup" where
  "next_event cfg d env clicks p =
     (case timers p of
        [] \<Rightarrow>
          (case clicks of
             [] \<Rightarrow> ([], p)
           | (at, c) # rest \<Rightarrow> (rest, on_click cfg env c (p\<lparr>clock := at\<rparr>)))
      | t # ts \<Rightarrow>
          (case clicks of
             [] \<Rightarrow> ([], on_timer cfg d env t (p\<lparr>timers := ts, clock := due t\<rparr>))
           | (at, c) # rest \<Rightarrow>
               if due t \<le> at then (clicks, on_timer cfg d env t (p\<lparr>timers := ts, clock := due t\<rparr>))
               else (rest, on_click cfg env c (p\<lparr>clock := at\<rparr>))))"

text \<open>
  The event loop, with fuel: \<open>Some\<close> the popup when no click and no timer is left,
  \<open>None\<close> when the fuel ends before that.
\<close>

fun run ::
  "nat \<Rightarrow> crawl_config \<Rightarrow> nat \<Rightarrow> (nat \<Rightarrow> nat \<Rightarrow> 'j step_env) \<Rightarrow> (nat \<times> click) list \<Rightarrow> 'j popup
     \<Rightarrow> 'j popup option" where
  "run 0 cfg d env clicks p = (if clicks = [] \<and> timers p = [] then Some p else None)"
| "run (Suc fuel) cfg d env clicks p =
     (if clicks = [] \<and> timers p = [] then Some p
      else (case next_event cfg d env clicks p of (clicks', p') \<Rightarrow> run fuel cfg d env clicks' p'))"


section \<open>The field extractor (content script)\<close>

subsection \<open>Regular expressions\<close>

text \<open>
  The fragment of JavaScript's regular expressions that the content script uses: literal
  text, a character class, greedy \<open>*\<close> and \<open>+\<close> over a class, greedy \<open>?\<close> and
  concatenation. \<open>rests r s\<close> lists what is left of \<open>s\<close> after each way of matching \<open>r\<close>
  at its start, in the order in which the backtracking matcher tries them; the first
  one is the match it reports.
\<close>

datatype regex =
    Str string
  | OneOf "char list"
  | Star "char list"
  | Plus "char list"
  | Opt regex
  | Seq regex regex

fun star_rests :: "char list \<Rightarrow> string \<Rightarrow> string list" where
  "star_rests cs [] = [[]]"
| "star_rests cs (c # s) = (if c \<in> set cs then star_rests cs s @ [c # s] else [c # s])"

fun rests :: "regex \<Rightarrow> string \<Rightarrow> string list" where
  "rests (Str w) s = (if take (length w) s = w then [drop (length w) s] else [])"
| "rests (OneOf cs) s = (case s of [] \<Rightarrow> [] | c # t \<Rightarrow> if c \<in> set cs then [t] else [])"
| "rests (Star cs) s = star_rests cs s"
| "rests (Plus cs) s = (case s of [] \<Rightarrow> [] | c # t \<Rightarrow> if c \<in> set cs then star_rests cs t else [])"
| "rests (Opt r) s = rests r s @ [s]"
| "rests (Seq r1 r2) s = concat (map (rests r2) (rests r1 s))"

definition match_here :: "regex \<Rightarrow> string \<Rightarrow> string option" where
  "match_here r s =
     (case rests r s of [] \<Rightarrow> None | rest # _ \<Rightarrow> Some (take (length s - length rest) s))"

text \<open>\<open>text.match(r)[0]\<close> for a regular expression without the \<open>g\<close> flag: the leftmost match.\<close>

fun js_match :: "regex \<Rightarrow> string \<Rightarrow> string option" where
  "js_match r [] = match_here r []"
| "js_match r (c # s) =
     (case match_here r (c # s) of Some m \<Rightarrow> Some m | None \<Rightarrow> js_match r s)"

definition digit :: "char list" where
  "digit = ''0123456789''"

definition white_space :: "char list" where
  "white_space = [CHR 0x09, CHR 0x0A, CHR 0x0B, CHR 0x0C, CHR 0x0D, CHR 0x20, CHR 0xA0]"

text \<open>\<open>\$\d+[.,]?\d*[KkMm]?(\/yr)?\<close>\<close>

definition amount_regex :: regex where
  "amount_regex =
     Seq (Str ''$'') (Seq (Plus digit) (Seq (Opt (OneOf ''.,'')) (Seq (Star digit)
       (Seq (Opt (OneOf ''KkMm'')) (Opt (Str ''/yr''))))))"

text \<open>\<open>/\$\d+[.,]?\d*[KkMm]?(\/yr)?(\s*-\s*\$\d+[.,]?\d*[KkMm]?(\/yr)?)?/\<close>\<close>

definition salary_regex :: regex where
  "salary_regex =
     Seq amount_regex
       (Opt (Seq (Star white_space) (Seq (Str ''-'') (Seq (Star white_space) amount_regex))))"

text \<open>\<open>/\/jobs\/view\/(\d+)/\<close>\<close>

definition job_view_regex :: regex where
  "job_view_regex = Seq (Str ''/jobs/view/'') (Plus digit)"

subsection \<open>Pages and cards\<close>

text \<open>
  An element inside a card, a card with its \<open>querySelectorAll\<close> and \<open>getAttribute\<close>, and
  a document as the \<open>querySelectorAll\<close> that yields cards. \<open>querySelector\<close> is the first
  element of \<open>querySelectorAll\<close>, or \<open>null\<close>.
\<close>

record element =
  innerText :: string
  tagName :: string
  href :: string
  src :: string
  getAttribute :: "string \<Rightarrow> string option"

record card =
  card_innerText :: string
  card_getAttribute :: "string \<Rightarrow> string option"
  querySelectorAll :: "string \<Rightarrow> element list"

type_synonym document = "string \<Rightarrow> card list"

definition querySelector :: "card \<Rightarrow> string \<Rightarrow> element option" where
  "querySelector c selector =
     (case querySelectorAll c selector of [] \<Rightarrow> None | el # _ \<Rightarrow> Some el)"

text \<open>
  \<open>toLowerCase\<close> on the letters A to Z; the script compares the result with lower-case
  ASCII text only.
\<close>

definition lower_char :: "char \<Rightarrow> char" where
  "lower_char c =
     (if c \<in> set ''ABCDEFGHIJKLMNOPQRSTUVWXYZ'' then char_of (of_char c + (32::nat)) else c)"

definition toLowerCase :: "string \<Rightarrow> string" where
  "toLowerCase s = map lower_char s"

fun js_includes :: "string \<Rightarrow> string \<Rightarrow> bool" where
  "js_includes [] w = (w = [])"
| "js_includes (c # s) w = (take (length w) (c # s) = w \<or> js_includes s w)"

subsection \<open>Selector cascades\<close>

text \<open>
  \<open>for (const selector of selectors) { el = card.querySelector(selector); if (el) break; }\<close>:
  the element of the first selector that matches, or \<open>null\<close>.
\<close>

fun first_match :: "(string \<Rightarrow> 'a option) \<Rightarrow> string list \<Rightarrow> 'a option" where
  "first_match q [] = None"
| "first_match q (selector # rest) =
     (case q selector of Some el \<Rightarrow> Some el | None \<Rightarrow> first_match q rest)"

text \<open>
  \<open>for (const selector of jobCardSelectors) { jobCards = document.querySelectorAll(selector);
  if (jobCards.length > 0) break; }\<close>
\<close>

fun first_nonempty :: "(string \<Rightarrow> 'a list) \<Rightarrow> string list \<Rightarrow> 'a list" where
  "first_nonempty qa [] = []"
| "first_nonempty qa (selector # rest) =
     (if qa selector \<noteq> [] then qa selector else first_nonempty qa rest)"

definition jobCardSelectors :: "string list" where
  "jobCardSelectors =
     [''.job-card-container'', ''.jobs-search-results__list-item'', ''.scaffold-layout__list-item'',
      ''li.jobs-search-results__list-item'', ''div[data-job-id]'']"

definition titleSelectors :: "string list" where
  \<open>titleSelectors =
     [''.job-card-list__title--link'', ''.job-card-list__title'', ''.job-card-container__link'',
      ''.disabled-ember-anchor'', ''a.job-card-container__link'', ''.base-card__full-link'',
      ''.base-search-card__title'', ''a[data-tracking-control-name*="job"]'']\<close>

definition companySelectors :: "string list" where
  "companySelectors =
     [''.artdeco-entity-lockup__subtitle'', ''.job-card-container__company-name'',
      ''.base-search-card__subtitle'', ''a.job-card-container__company-link'',
      ''.job-card-container__primary-description'']"

definition locationSelectors :: "string list" where
  "locationSelectors =
     [''.job-card-container__metadata-wrapper li'', ''.job-card-container__metadata-item'',
      ''.base-search-card__metadata'', ''.job-search-card__location'']"

definition linkedin_job_cards :: "document \<Rightarrow> card list" where
  "linkedin_job_cards doc = first_nonempty doc jobCardSelectors"

text \<open>The text of a field: the trimmed text of the first matching element, or the sentinel.\<close>

definition field_text :: "card \<Rightarrow> string list \<Rightarrow> string \<Rightarrow> string" where
  "field_text c selectors sentinel =
     (case first_match (querySelector c) selectors of
        None \<Rightarrow> sentinel
      | Some el \<Rightarrow> js_trim (innerText el))"

definition linkedin_title :: "card \<Rightarrow> string" where
  "linkedin_title c = field_text c titleSelectors ''Unknown Title''"

definition linkedin_link :: "card \<Rightarrow> string" where
  \<open>linkedin_link c =
     (case first_match (querySelector c) titleSelectors of
        None \<Rightarrow> ''#''
      | Some el \<Rightarrow>
          if toLowerCase (tagName el) = ''a'' then href el
          else (case querySelector c ''a[href*="/jobs/view/"]'' of
                  None \<Rightarrow> ''#''
                | Some linkAnchor \<Rightarrow> href linkAnchor))\<close>

definition linkedin_company :: "card \<Rightarrow> string" where
  "linkedin_company c = field_text c companySelectors ''Unknown Company''"

definition linkedin_location :: "card \<Rightarrow> string" where
  "linkedin_location c = field_text c locationSelectors ''Remote/Unknown''"

subsection \<open>Salary, easy apply and id of a LinkedIn card\<close>

text \<open>
  The loops over spans and list items: the trimmed text of the first element in which
  the salary pattern matches.
\<close>

fun first_salary_text :: "element list \<Rightarrow> string option" where
  "first_salary_text [] = None"
| "first_salary_text (el # rest) =
     (if js_match salary_regex (js_trim (innerText el)) \<noteq> None
      then Some (js_trim (innerText el))
      else first_salary_text rest)"

definition salary_in_metadata :: "card \<Rightarrow> string" where
  "salary_in_metadata c =
     (case querySelector c ''.artdeco-entity-lockup__metadata'' of
        None \<Rightarrow> ''Not listed''
      | Some metadataSection \<Rightarrow>
          (case js_match salary_regex (js_trim (innerText metadataSection)) of
             None \<Rightarrow> ''Not listed''
           | Some m \<Rightarrow> m))"

definition salary_in :: "element list \<Rightarrow> string \<Rightarrow> string" where
  "salary_in els salary =
     (if salary = ''Not listed''
      then (case first_salary_text els of None \<Rightarrow> salary | Some text \<Rightarrow> text)
      else salary)"

definition clean_salary :: "string \<Rightarrow> string" where
  "clean_salary salary =
     (if salary \<noteq> ''Not listed''
      then (case js_match salary_regex salary of None \<Rightarrow> salary | Some m \<Rightarrow> m)
      else salary)"

definition linkedin_salary :: "card \<Rightarrow> string" where
  \<open>linkedin_salary c =
     clean_salary
       (salary_in
          (querySelectorAll c
             ''.job-card-container__metadata-wrapper li, .artdeco-entity-lockup__metadata li'')
          (salary_in (querySelectorAll c ''span[dir="ltr"]'') (salary_in_metadata c)))\<close>

definition linkedin_easy_apply :: "card \<Rightarrow> bool" where
  \<open>linkedin_easy_apply c =
     (list_ex (\<lambda>span. toLowerCase (js_trim (innerText span)) = ''easy apply'')
        (querySelectorAll c
           ''.job-card-container__footer-wrapper span[dir="ltr"], .job-card-list__footer-wrapper span[dir="ltr"]'')
      \<or> list_ex (\<lambda>item. js_includes (toLowerCase (innerText item)) ''easy apply'')
           (querySelectorAll c
              ''.job-card-container__footer-wrapper li, .job-card-list__footer-wrapper li'')
      \<or> js_includes (toLowerCase (card_innerText c)) ''easy apply'')\<close>

definition truthy :: "string option \<Rightarrow> string option" where
  "truthy v = (case v of None \<Rightarrow> None | Some s \<Rightarrow> if s = [] then None else Some s)"

text \<open>\<open>rnd\<close> stands for \<open>Math.random().toString(36).substr(2, 9)\<close>.\<close>

definition linkedin_job_id :: "string \<Rightarrow> card \<Rightarrow> string" where
  "linkedin_job_id rnd c =
     (case truthy (card_getAttribute c ''data-job-id'') of
        Some k \<Rightarrow> k
      | None \<Rightarrow>
     (case truthy (card_getAttribute c ''data-occludable-job-id'') of
        Some k \<Rightarrow> k
      | None \<Rightarrow>
     (case truthy (case querySelector c ''[data-job-id]'' of
                     None \<Rightarrow> None
                   | Some el \<Rightarrow> getAttribute el ''data-job-id'') of
        Some k \<Rightarrow> k
      | None \<Rightarrow>
          (case js_match job_view_regex (linkedin_link c) of
             Some m \<Rightarrow> drop (length ''/jobs/view/'') m
           | None \<Rightarrow> ''li-'' @ rnd))))"

record linkedin_job =
  li_id :: string
  li_title :: string
  li_company :: string
  li_location :: string
  li_salary :: string
  li_easyApply :: bool
  li_url :: string
  li_image :: string
  li_source :: string

definition linkedin_image :: "card \<Rightarrow> string" where
  "linkedin_image c =
     (case querySelector c
        ''.job-card-list__logo img, .ivm-view-attr__img--centered, img.artdeco-entity-image, .job-card-square-logo img'' of
        None \<Rightarrow> []
      | Some imgElement \<Rightarrow> src imgElement)"

definition scrape_card :: "string \<Rightarrow> card \<Rightarrow> linkedin_job list" where
  "scrape_card rnd c =
     (if linkedin_title c \<noteq> ''Unknown Title'' then
        [\<lparr> li_id = linkedin_job_id rnd c, li_title = linkedin_title c,
           li_company = linkedin_company c, li_location = linkedin_location c,
           li_salary = linkedin_salary c, li_easyApply = linkedin_easy_apply c,
           li_url = linkedin_link c, li_image = linkedin_image c, li_source = ''LinkedIn'' \<rparr>]
      else [])"

text \<open>\<open>scrapeLinkedIn\<close>; \<open>rnd i\<close> is the random text drawn for the card at position \<open>i\<close>.\<close>

definition scrapeLinkedIn :: "(nat \<Rightarrow> string) \<Rightarrow> document \<Rightarrow> linkedin_job list" where
  "scrapeLinkedIn rnd doc =
     concat (map (\<lambda>(i, c). scrape_card (rnd i) c) (enumerate 0 (linkedin_job_cards doc)))"

section \<open>Notions used in the statements\<close>

text \<open>An attempt that yields a description shorter than the minimum viable length.\<close>

definition too_short :: "fetch_outcome \<Rightarrow> bool" where
  "too_short out =
     (case out of
        Threw \<Rightarrow> False
      | Loaded p \<Rightarrow> (case extract_description p of None \<Rightarrow> False | Some d \<Rightarrow> length d < 50))"

text \<open>The events behind the two counters of the summary, and the cadence of a run.\<close>

definition is_failure :: "event \<Rightarrow> bool" where
  "is_failure e = (case e of FailedUpdate _ \<Rightarrow> True | FailedFetch _ \<Rightarrow> True | _ \<Rightarrow> False)"

definition is_enrichment :: "event \<Rightarrow> bool" where
  "is_enrichment e = (case e of Enriched _ \<Rightarrow> True | _ \<Rightarrow> False)"

definition cadence :: "event list \<Rightarrow> event list" where
  "cadence evs = filter (\<lambda>e. case e of BatchStarted _ \<Rightarrow> True | CoolDown \<Rightarrow> True | _ \<Rightarrow> False) evs"

definition counted :: "run_state \<Rightarrow> bool" where
  "counted st \<longleftrightarrow> failedCount st = length (filter is_failure (run_log st))
                 \<and> enrichedCount st = length (filter is_enrichment (run_log st))"






definition found_jobs :: "'j step_env \<Rightarrow> 'j list" where
  "found_jobs e = (case scraped e of Found jobs \<Rightarrow> jobs | _ \<Rightarrow> [])"

section \<open>Example inputs\<close>

definition env0 :: js_env where
  "env0 = \<lparr>now = 1700000000000, plus_month = (\<lambda>t. t + 2592000000),
           locale_date = (\<lambda>t. ''11/14/2023'')\<rparr>"

definition mk_job :: "string \<Rightarrow> raw_job" where
  "mk_job k =
     \<lparr>job_id = k, job_title = Some ''Security Analyst'', job_company = None,
      job_location = Some [], job_type = None, job_salary = None, job_posted = None,
      job_description = None, job_url = Some (''https://example.org/'' @ k), job_source = None\<rparr>"

definition fail_first :: "nat \<Rightarrow> fault" where
  "fail_first i = (if i = 0 then SelectFails else NoFault)"

definition fail_second :: "nat \<Rightarrow> fault" where
  "fail_second i = (if i = 1 then InsertFails else NoFault)"

definition mk_row :: "nat \<Rightarrow> stored_job" where
  "mk_row n =
     \<lparr>row_id = ''job-'' @ replicate (Suc n) CHR ''i'', row_title = ''Security Analyst'',
      row_company = ''Unknown Company'', row_location = ''Remote'', row_type = ''Full-time'',
      row_salary = ''Not listed'', row_posted_date = ''11/14/2023'',
      row_description = Some ''View posting for details'',
      row_url = Some ''https://example.org/job'', row_source = ''Indeed'',
      row_added_at = int n, row_expires_at = 100 + int n\<rparr>"

definition rows12 :: "stored_job list" where
  "rows12 = map mk_row [0, 1, 2, 3, 4, 5, 6, 7, 8, 9, 10, 11]"

definition like_never :: "string \<Rightarrow> string \<Rightarrow> bool" where
  "like_never v p = False"

definition short_page :: page where
  "short_page = \<lparr>extractor_throws = False, evaluated = Some ''Too short.''\<rparr>"

definition long_page :: page where
  "long_page = \<lparr>extractor_throws = False, evaluated = Some (replicate 60 CHR ''d'')\<rparr>"

text \<open>
  An environment in which the job added first always yields a ten character
  description and every other job a long one.
\<close>

definition env_first_short :: enrich_env where
  "env_first_short =
     \<lparr>select_ok = True, launch_ok = True,
      attempts = (\<lambda>job k. if row_added_at job = 0 then Loaded short_page else Loaded long_page),
      update_ok = (\<lambda>k. True), sql_like = like_never\<rparr>"

definition env_store_down :: enrich_env where
  "env_store_down = env_first_short\<lparr>select_ok := False\<rparr>"

definition env_no_browser :: enrich_env where
  "env_no_browser = env_first_short\<lparr>launch_ok := False\<rparr>"

definition cfgAB :: crawl_config where
  "cfgAB =
     \<lparr>selectedLocations = [\<lparr>loc_name = ''A'', geoId = Some ''1''\<rparr>, \<lparr>loc_name = ''B'', geoId = None\<rparr>],
      config_keywords = [''x'', ''y''], remoteOnly = True, easyApplyOnly = False,
      autoUpload = True, encodeURIComponent = (\<lambda>s. s)\<rparr>"


text \<open>The user clicks Stop during the second search, at the given moment.\<close>

definition env_stop :: "stop_click \<Rightarrow> nat \<Rightarrow> nat \<Rightarrow> nat step_env" where
  "env_stop click li ki =
     \<lparr>nav = NavOk, scraped = Found [10 * li + ki],
      stop = (if li = 0 \<and> ki = 1 then click else NoStop)\<rparr>"

definition first_search_done :: "nat crawl_state" where
  "first_search_done =
     \<lparr>isRunning = True, currentLocationIndex = 0, currentKeywordIndex = 1, allJobs = [0],
      searches = [(''A'', ''x'')], navigations = [linkedin_url cfgAB (selectedLocations cfgAB ! 0) ''x''],
      uploaded = None, type_error = False\<rparr>"

definition salary_text :: string where
  "salary_text = ''$101K/yr - $120.4K/yr '' @ [CHR 0xB7] @ '' 401k''"

definition element_with_text :: "string \<Rightarrow> element" where
  "element_with_text t =
     \<lparr>innerText = t, tagName = ''SPAN'', href = [], src = [], getAttribute = (\<lambda>a. None)\<rparr>"

text \<open>A card in which exactly the given selectors match, each one element with its text.\<close>

definition card_with :: "(string \<times> string) list \<Rightarrow> card" where
  "card_with matches =
     \<lparr>card_innerText = concat (map snd matches), card_getAttribute = (\<lambda>a. None),
      querySelectorAll =
        (\<lambda>s. case map_of matches s of None \<Rightarrow> [] | Some t \<Rightarrow> [element_with_text t])\<rparr>"

definition two_tier_card :: card where
  "two_tier_card =
     card_with
       [(''.job-card-list__title'', '' Tier one ''), (''.base-card__full-link'', ''Tier two''),
        (''.job-card-container__company-name'', ''Acme ''), (''.base-search-card__subtitle'', ''Other''),
        (''.job-card-container__metadata-item'', ''Remote, US''),
        (''.job-search-card__location'', ''Elsewhere'')]"

definition two_tier_doc :: document where
  "two_tier_doc s =
     (if s = ''.jobs-search-results__list-item'' then [two_tier_card]
      else if s = ''div[data-job-id]'' then [two_tier_card, two_tier_card]
      else [])"

section \<open>Ingestion: idempotence and storage failures\<close>

lemma select_id_empty_iff: "select_id tbl k = [] \<longleftrightarrow> k \<notin> row_id ` set tbl"
  by (auto simp: select_id_def filter_empty_conv)

lemma row_id_insert_values [simp]: "row_id (insert_values env job) = job_id job"
  by (simp add: insert_values_def)

lemma select_id_append: "select_id (tbl @ rows) k = select_id tbl k @ select_id rows k"
  by (simp add: select_id_def)

text \<open>
  What a batch without storage failures does to the table: it appends rows, one for
  every id of the batch that had no row, and none for an id that had one.
\<close>

lemma ingest_loop_nofault:
  "ingest_loop env (\<lambda>_. NoFault) i R tbl a = (ok, tbl', a') \<Longrightarrow>
     ok \<and> a' + length tbl = a + length tbl' \<and> prefix tbl tbl'
        \<and> (\<forall>k. length (select_id tbl' k) =
                  (if k \<in> job_id ` set R then max 1 (length (select_id tbl k))
                   else length (select_id tbl k)))"
proof (induction R arbitrary: i tbl a)
  case Nil
  then show ?case by simp
next
  case (Cons job rest)
  show ?case
  proof (cases "select_id tbl (job_id job) = []")
    case True
    with Cons.prems have
      "ingest_loop env (\<lambda>_. NoFault) (Suc i) rest (tbl @ [insert_values env job]) (Suc a) = (ok, tbl', a')"
      by simp
    from Cons.IH [OF this] True show ?thesis
      by (auto simp: select_id_append select_id_def dest: append_prefixD)
  next
    case False
    then have "1 \<le> length (select_id tbl (job_id job))"
      by (cases "select_id tbl (job_id job)") simp_all
    moreover from False Cons.prems have
      "ingest_loop env (\<lambda>_. NoFault) (Suc i) rest tbl a = (ok, tbl', a')"
      by simp
    from Cons.IH [OF this] have
      "ok \<and> a' + length tbl = a + length tbl' \<and> prefix tbl tbl'
        \<and> (\<forall>k. length (select_id tbl' k) =
                  (if k \<in> job_id ` set rest then max 1 (length (select_id tbl k))
                   else length (select_id tbl k)))" .
    ultimately show ?thesis by auto
  qed
qed

text \<open>A batch whose ids are all stored changes nothing, whatever fails.\<close>

lemma ingest_loop_all_present:
  "job_id ` set R \<subseteq> row_id ` set tbl \<Longrightarrow>
     \<exists>ok. ingest_loop env flt i R tbl a = (ok, tbl, a)"
  by (induction R arbitrary: i) (auto simp: select_id_empty_iff)

text \<open>
  C1. A first call that meets no storage failure returns the number of rows it appended
  and keeps the rows that were there; for the id of every record of the batch the table
  then holds exactly one row if it held none before, and as many as before otherwise. A
  second call with the same batch, if it gets a connection, returns 0 and leaves the
  table as it is, whatever fails during it.
\<close>

theorem ingest_idempotent:
  assumes "addJobsToSystem env True (\<lambda>_. NoFault) tbl R = (res, tbl1, logged)"
  shows "res = Inr (length tbl1 - length tbl) \<and> \<not> logged \<and> prefix tbl tbl1
         \<and> (\<forall>r \<in> set R. length (select_id tbl1 (job_id r)) = max 1 (length (select_id tbl (job_id r))))
         \<and> fst (addJobsToSystem env2 True flt2 tbl1 R) = Inr 0
         \<and> fst (snd (addJobsToSystem env2 True flt2 tbl1 R)) = tbl1"
proof (cases "R = []")
  case True
  with assms show ?thesis by (simp add: addJobsToSystem_def)
next
  case False
  obtain ok t a where loop: "ingest_loop env (\<lambda>_. NoFault) 0 R tbl 0 = (ok, t, a)"
    by (metis prod_cases3)
  with assms False have res: "res = Inr a" "tbl1 = t" "logged = (\<not> ok)"
    by (simp_all add: addJobsToSystem_def)
  from ingest_loop_nofault [OF loop] res
  have ok: "ok" and cnt: "a = length tbl1 - length tbl" and pre: "prefix tbl tbl1"
    and once: "\<forall>r \<in> set R. length (select_id tbl1 (job_id r)) = max 1 (length (select_id tbl (job_id r)))"
    by auto
  have "job_id ` set R \<subseteq> row_id ` set tbl1"
  proof
    fix k assume "k \<in> job_id ` set R"
    with once have "1 \<le> length (select_id tbl1 k)" by auto
    then have "select_id tbl1 k \<noteq> []" by auto
    then show "k \<in> row_id ` set tbl1" by (simp add: select_id_empty_iff)
  qed
  from ingest_loop_all_present [OF this, of env2 flt2 0 0]
  obtain ok2 where "ingest_loop env2 flt2 0 R tbl1 0 = (ok2, tbl1, 0)" by blast
  then have "fst (addJobsToSystem env2 True flt2 tbl1 R) = Inr 0"
    "fst (snd (addJobsToSystem env2 True flt2 tbl1 R)) = tbl1"
    using False by (simp_all add: addJobsToSystem_def)
  with res ok cnt once pre show ?thesis by simp
qed

theorem ingest_idempotent_witness:
  "addJobsToSystem env0 True (\<lambda>_. NoFault) [] [mk_job ''a'', mk_job ''b'', mk_job ''a'']
     = (Inr 2, [insert_values env0 (mk_job ''a''), insert_values env0 (mk_job ''b'')], False)
   \<and> length (select_id [insert_values env0 (mk_job ''a''), insert_values env0 (mk_job ''b'')] ''a'') = 1
   \<and> length (select_id [insert_values env0 (mk_job ''a''), insert_values env0 (mk_job ''b'')] ''b'') = 1
   \<and> fst (addJobsToSystem env0 True fail_first
            [insert_values env0 (mk_job ''a''), insert_values env0 (mk_job ''b'')]
            [mk_job ''a'', mk_job ''b'', mk_job ''a'']) = Inr 0
   \<and> fst (snd (addJobsToSystem env0 True fail_first
            [insert_values env0 (mk_job ''a''), insert_values env0 (mk_job ''b'')]
            [mk_job ''a'', mk_job ''b'', mk_job ''a'']))
       = [insert_values env0 (mk_job ''a''), insert_values env0 (mk_job ''b'')]"
proof -
  have run: "addJobsToSystem env0 True (\<lambda>_. NoFault) [] [mk_job ''a'', mk_job ''b'', mk_job ''a'']
     = (Inr 2, [insert_values env0 (mk_job ''a''), insert_values env0 (mk_job ''b'')], False)"
    by (simp add: addJobsToSystem_def select_id_def mk_job_def)
  from ingest_idempotent [OF run, of env0 fail_first] run show ?thesis
    by (simp add: mk_job_def select_id_def)
qed

text \<open>A fault-free prefix of a batch is processed as if it were the whole batch.\<close>

lemma ingest_loop_prefix:
  "\<forall>k<length xs. flt (i + k) = NoFault \<Longrightarrow>
   ingest_loop env (\<lambda>_. NoFault) i xs tbl a = (ok, t, a') \<Longrightarrow>
   ingest_loop env flt i (xs @ zs) tbl a = ingest_loop env flt (i + length xs) zs t a'"
proof (induction xs arbitrary: i tbl a)
  case Nil
  then show ?case by simp
next
  case (Cons job rest)
  from Cons.prems(1) have here: "flt i = NoFault"
    by (metis add.right_neutral length_greater_0_conv list.distinct(1))
  from Cons.prems(1) have later: "\<forall>k<length rest. flt (Suc i + k) = NoFault"
    by (metis Suc_less_eq add_Suc_shift length_Cons)
  show ?case
  proof (cases "select_id tbl (job_id job) = []")
    case True
    with Cons.prems(2) have
      "ingest_loop env (\<lambda>_. NoFault) (Suc i) rest (tbl @ [insert_values env job]) (Suc a) = (ok, t, a')"
      by simp
    from Cons.IH [OF later this] True here show ?thesis by simp
  next
    case False
    with Cons.prems(2) have "ingest_loop env (\<lambda>_. NoFault) (Suc i) rest tbl a = (ok, t, a')"
      by simp
    from Cons.IH [OF later this] False here show ?thesis by simp
  qed
qed

text \<open>
  C2, as the claim states it, fails: with the existence check of the first record
  failing, the second record, which is new, is never inserted.
\<close>

theorem ingest_failure_counterexample:
  "addJobsToSystem env0 True fail_first [] [mk_job ''a'', mk_job ''b''] = (Inr 0, [], True)"
  by (simp add: addJobsToSystem_def fail_first_def)

text \<open>
  C2, amended. When the records before position \<open>length xs\<close> meet no failure and the
  record \<open>j\<close> at that position does (its existence check throws, or the check finds no
  row and its insert throws), the call ends there: it returns what the batch \<open>xs\<close> alone
  returns, the number of rows appended for \<open>xs\<close>, leaves the table that \<open>xs\<close> alone leaves,
  and logs the error. So no row is inserted for \<open>j\<close> or for any record of \<open>ys\<close>: the ids
  of these records have the rows they had before the call, unless a record of \<open>xs\<close>
  carries the same id.
\<close>

theorem ingest_failure_aborts_batch:
  assumes "\<forall>k<length xs. flt k = NoFault"
      and "addJobsToSystem env True (\<lambda>_. NoFault) tbl xs = (res, t, logged)"
      and "flt (length xs) = SelectFails
           \<or> (flt (length xs) = InsertFails \<and> select_id t (job_id j) = [])"
  shows "addJobsToSystem env True flt tbl (xs @ j # ys) = (res, t, True)
         \<and> res = Inr (length t - length tbl) \<and> prefix tbl t
         \<and> (\<forall>r \<in> set (j # ys). job_id r \<notin> job_id ` set xs \<longrightarrow>
               length (select_id t (job_id r)) = length (select_id tbl (job_id r)))"
proof -
  obtain ok t' a where loop: "ingest_loop env (\<lambda>_. NoFault) 0 xs tbl 0 = (ok, t', a)"
    by (metis prod_cases3)
  have res: "res = Inr a \<and> t = t'"
  proof (cases "xs = []")
    case True
    with assms(2) loop show ?thesis by (simp add: addJobsToSystem_def)
  next
    case False
    with assms(2) loop show ?thesis by (simp add: addJobsToSystem_def)
  qed
  from ingest_loop_nofault [OF loop] res
  have cnt: "a = length t - length tbl" and pre: "prefix tbl t"
    and rows: "\<forall>k. k \<notin> job_id ` set xs \<longrightarrow> length (select_id t k) = length (select_id tbl k)"
    by auto
  from assms(1) have "\<forall>k<length xs. flt (0 + k) = NoFault" by simp
  from ingest_loop_prefix [OF this loop, of "j # ys"]
  have "ingest_loop env flt 0 (xs @ j # ys) tbl 0 = ingest_loop env flt (length xs) (j # ys) t' a"
    by simp
  also from assms(3) res have "\<dots> = (False, t', a)" by auto
  finally have "addJobsToSystem env True flt tbl (xs @ j # ys) = (res, t, True)"
    using res by (simp add: addJobsToSystem_def)
  with res cnt pre rows show ?thesis by blast
qed

theorem ingest_failure_aborts_batch_witness:
  "addJobsToSystem env0 True fail_second [] ([mk_job ''a''] @ mk_job ''b'' # [mk_job ''c''])
     = (Inr 1, [insert_values env0 (mk_job ''a'')], True)
   \<and> select_id [insert_values env0 (mk_job ''a'')] (job_id (mk_job ''b'')) = []
   \<and> select_id [insert_values env0 (mk_job ''a'')] (job_id (mk_job ''c'')) = []"
proof -
  have before: "\<forall>k<length [mk_job ''a'']. fail_second k = NoFault"
    by (simp add: fail_second_def)
  have run: "addJobsToSystem env0 True (\<lambda>_. NoFault) [] [mk_job ''a'']
               = (Inr 1, [insert_values env0 (mk_job ''a'')], False)"
    by (simp add: addJobsToSystem_def select_id_def)
  have fails: "fail_second (length [mk_job ''a'']) = SelectFails
           \<or> (fail_second (length [mk_job ''a'']) = InsertFails
               \<and> select_id [insert_values env0 (mk_job ''a'')] (job_id (mk_job ''b'')) = [])"
    by (simp add: fail_second_def select_id_def mk_job_def)
  from ingest_failure_aborts_batch [OF before run fails, of "[mk_job ''c'']"] show ?thesis
    by (simp add: mk_job_def select_id_def)
qed

section \<open>The read interface: expired rows\<close>

text \<open>
  C9. A stored row whose \<open>expires_at\<close> lies before the time of the read is in no result
  of \<open>getJobs\<close>, whatever the filters, and the read leaves the table, the row included,
  as it is.
\<close>

theorem expired_jobs_are_filtered:
  assumes "j \<in> set tbl" and "row_expires_at j < now_db"
  shows "j \<notin> fst ` set (fst (getJobs like now_db query_ok filters tbl))
         \<and> snd (getJobs like now_db query_ok filters tbl) = tbl"
  using assms by (auto simp: getJobs_def order_by_added_at_desc_def getJobs_where_def)

theorem expired_jobs_are_filtered_witness:
  "fst (getJobs like_never 105 True None [mk_row 3, mk_row 9]) = [(mk_row 9, ''11/14/2023'')]
   \<and> mk_row 3 \<notin> fst ` set (fst (getJobs like_never 105 True None [mk_row 3, mk_row 9]))
   \<and> snd (getJobs like_never 105 True None [mk_row 3, mk_row 9]) = [mk_row 3, mk_row 9]"
proof -
  have stored: "mk_row 3 \<in> set [mk_row 3, mk_row 9]" by simp
  have expired: "row_expires_at (mk_row 3) < 105" by (simp add: mk_row_def)
  have "fst (getJobs like_never 105 True None [mk_row 3, mk_row 9]) = [(mk_row 9, ''11/14/2023'')]"
    by (simp add: getJobs_def getJobs_where_def filter_term_def order_by_added_at_desc_def mk_row_def)
  with expired_jobs_are_filtered [OF stored expired, of like_never True None] show ?thesis
    by simp
qed

section \<open>Enrichment: retries, buckets, cadence and fatal failures\<close>

declare fetchJobDescription.simps [simp del]
declare batch_loop.simps [simp del]

text \<open>
  When every attempt yields a description under 50 characters, the attempts run from
  the given \<open>retryCount\<close> up to \<open>MAX_RETRIES\<close> and the result is \<open>null\<close>.
\<close>

lemma fetch_always_short:
  "\<forall>k. too_short (att k) \<Longrightarrow> rc \<le> MAX_RETRIES \<Longrightarrow>
     fetchJobDescription att rc = (None, MAX_RETRIES + 1 - rc)"
proof (induction att rc rule: fetchJobDescription.induct)
  case (1 attempt retryCount)
  from "1.prems"(1) have "too_short (attempt retryCount)" by blast
  then obtain p d where out: "attempt retryCount = Loaded p"
    and d: "extract_description p = Some d" "length d < 50"
    by (auto simp: too_short_def split: fetch_outcome.splits option.splits)
  show ?case
  proof (cases "retryCount < MAX_RETRIES")
    case True
    then have "fetchJobDescription attempt (retryCount + 1) = (None, MAX_RETRIES + 1 - (retryCount + 1))"
      using "1.IH" out d "1.prems" by auto
    with True out d show ?thesis
      by (subst fetchJobDescription.simps) (simp add: one_more_def)
  next
    case False
    with "1.prems"(2) have "retryCount = MAX_RETRIES" by simp
    with out d show ?thesis
      by (subst fetchJobDescription.simps) simp
  qed
qed

lemma select_id_update_other:
  "x \<noteq> k \<Longrightarrow>
     map row_description (select_id (map (\<lambda>r. if row_id r = k then r\<lparr>row_description := d\<rparr> else r) tbl) x)
       = map row_description (select_id tbl x)"
  unfolding select_id_def by (induction tbl) auto

text \<open>
  Settling a batch in which every job with id \<open>x\<close> has the result \<open>null\<close>: the
  descriptions stored under \<open>x\<close> stay, no enrichment of \<open>x\<close> is logged, each such job is
  logged as a failed fetch, and the two counters keep counting the log.
\<close>

lemma settle_batch_inv:
  assumes "\<forall>(j, v) \<in> set prs. row_id j = x \<longrightarrow> v = None"
  shows "map row_description (select_id (jobs_table (settle_batch env prs st)) x)
           = map row_description (select_id (jobs_table st) x)
       \<and> (Enriched x \<in> set (run_log (settle_batch env prs st)) \<longrightarrow> Enriched x \<in> set (run_log st))
       \<and> set (run_log st) \<subseteq> set (run_log (settle_batch env prs st))
       \<and> ((\<exists>j. (j, None) \<in> set prs \<and> row_id j = x)
             \<longrightarrow> FailedFetch x \<in> set (run_log (settle_batch env prs st)))
       \<and> (counted st \<longrightarrow> counted (settle_batch env prs st))
       \<and> enrichedCount (settle_batch env prs st) + failedCount (settle_batch env prs st)
           = enrichedCount st + failedCount st + length prs"
  using assms
proof (induction prs arbitrary: st)
  case Nil
  then show ?case by simp
next
  case (Cons pr rest)
  obtain job val where pr: "pr = (job, val)" by (cases pr)
  define st1 where "st1 =
       (case val of
          Some description \<Rightarrow>
            if description \<noteq> [] then
              (case updateJobDescription env (row_id job) description (jobs_table st) of
                 (success, tbl') \<Rightarrow>
                   if success
                   then st\<lparr>jobs_table := tbl', enrichedCount := enrichedCount st + 1,
                            run_log := run_log st @ [Enriched (row_id job)]\<rparr>
                   else st\<lparr>jobs_table := tbl', failedCount := failedCount st + 1,
                            run_log := run_log st @ [FailedUpdate (row_id job)]\<rparr>)
            else st\<lparr>failedCount := failedCount st + 1,
                     run_log := run_log st @ [FailedFetch (row_id job)]\<rparr>
        | None \<Rightarrow> st\<lparr>failedCount := failedCount st + 1,
                       run_log := run_log st @ [FailedFetch (row_id job)]\<rparr>)"
  have unfold: "settle_batch env (pr # rest) st = settle_batch env rest st1"
    by (simp add: pr st1_def)
  from Cons.prems have here: "row_id job = x \<longrightarrow> val = None"
    and rest: "\<forall>(j, v) \<in> set rest. row_id j = x \<longrightarrow> v = None"
    by (auto simp: pr)
  have step:
    "map row_description (select_id (jobs_table st1) x) = map row_description (select_id (jobs_table st) x)
     \<and> (Enriched x \<in> set (run_log st1) \<longrightarrow> Enriched x \<in> set (run_log st))
     \<and> set (run_log st) \<subseteq> set (run_log st1)
     \<and> (val = None \<and> row_id job = x \<longrightarrow> FailedFetch x \<in> set (run_log st1))
     \<and> (counted st \<longrightarrow> counted st1)
     \<and> enrichedCount st1 + failedCount st1 = enrichedCount st + failedCount st + 1"
    using here
    by (auto simp: st1_def updateJobDescription_def select_id_update_other counted_def
          is_failure_def is_enrichment_def split: option.splits)
  from Cons.IH [OF rest, of st1] step show ?case
    unfolding unfold by (auto simp: pr)
qed


lemma zip_map_self: "zip xs (map f xs) = map (\<lambda>x. (x, f x)) xs"
  by (induction xs) auto

text \<open>The same for the batch loop, from position \<open>i\<close> on.\<close>

lemma batch_loop_inv:
  assumes "\<forall>j \<in> set (drop i jobs). row_id j = x \<longrightarrow> fst (fetchJobDescription (attempts env j) 0) = None"
  shows "map row_description (select_id (jobs_table (batch_loop env jobs i st)) x)
           = map row_description (select_id (jobs_table st) x)
       \<and> (Enriched x \<in> set (run_log (batch_loop env jobs i st)) \<longrightarrow> Enriched x \<in> set (run_log st))
       \<and> set (run_log st) \<subseteq> set (run_log (batch_loop env jobs i st))
       \<and> ((\<exists>j \<in> set (drop i jobs). row_id j = x)
             \<longrightarrow> FailedFetch x \<in> set (run_log (batch_loop env jobs i st)))
       \<and> (counted st \<longrightarrow> counted (batch_loop env jobs i st))
       \<and> enrichedCount (batch_loop env jobs i st) + failedCount (batch_loop env jobs i st)
           = enrichedCount st + failedCount st + (length jobs - i)"
  using assms
proof (induction env jobs i st rule: batch_loop.induct)
  case (1 env jobs i st)
  show ?case
  proof (cases "i < length jobs")
    case False
    then show ?thesis by (subst (1 2 3 4 5 6 7) batch_loop.simps) simp
  next
    case True
    define batch where "batch = take BATCH_SIZE (drop i jobs)"
    define results where "results = map (\<lambda>job. fst (fetchJobDescription (attempts env job) 0)) batch"
    define st0 where "st0 = st\<lparr>run_log := run_log st @ [BatchStarted (map row_id batch)]\<rparr>"
    define st1 where "st1 = settle_batch env (zip batch results) st0"
    define st2 where "st2 = (if i + BATCH_SIZE < length jobs
                    then st1\<lparr>run_log := run_log st1 @ [CoolDown]\<rparr> else st1)"
    have unfold: "batch_loop env jobs i st = batch_loop env jobs (i + BATCH_SIZE) st2"
      using True
      by (subst batch_loop.simps) (simp add: Let_def batch_def results_def st0_def st1_def st2_def)
    have split: "drop i jobs = batch @ drop (i + BATCH_SIZE) jobs"
      using append_take_drop_id [of BATCH_SIZE "drop i jobs"] by (simp add: batch_def add.commute)
    have len: "length batch + (length jobs - (i + BATCH_SIZE)) = length jobs - i"
      using True by (auto simp: batch_def)
    have prs: "zip batch results = map (\<lambda>j. (j, fst (fetchJobDescription (attempts env j) 0))) batch"
      by (simp add: results_def zip_map_self)
    from "1.prems" split
    have fails_batch: "\<forall>(j, v) \<in> set (zip batch results). row_id j = x \<longrightarrow> v = None"
      and fails_rest: "\<forall>j \<in> set (drop (i + BATCH_SIZE) jobs). row_id j = x
                          \<longrightarrow> fst (fetchJobDescription (attempts env j) 0) = None"
      by (auto simp: prs)
    have in_batch: "(\<exists>j \<in> set batch. row_id j = x) \<longrightarrow> (\<exists>j. (j, None) \<in> set (zip batch results) \<and> row_id j = x)"
    proof
      assume "\<exists>j \<in> set batch. row_id j = x"
      then obtain j where j: "j \<in> set batch" "row_id j = x" by blast
      with "1.prems" split have "fst (fetchJobDescription (attempts env j) 0) = None" by auto
      with j have "(j, None) \<in> set (zip batch results)" by (force simp: prs)
      with j show "\<exists>j. (j, None) \<in> set (zip batch results) \<and> row_id j = x" by blast
    qed
    note s = settle_batch_inv [OF fails_batch, of env st0, folded st1_def]
    have a: "map row_description (select_id (jobs_table st2) x) = map row_description (select_id (jobs_table st) x)"
      using s by (simp add: st2_def st0_def)
    have b: "Enriched x \<in> set (run_log st2) \<longrightarrow> Enriched x \<in> set (run_log st)"
      using s by (auto simp: st2_def st0_def)
    have c: "set (run_log st) \<subseteq> set (run_log st2)"
      using s by (auto simp: st2_def st0_def)
    have d: "(\<exists>j \<in> set batch. row_id j = x) \<longrightarrow> FailedFetch x \<in> set (run_log st2)"
      using s in_batch by (auto simp: st2_def)
    have e: "counted st \<longrightarrow> counted st2"
    proof
      assume "counted st"
      then have "counted st0"
        by (simp add: counted_def st0_def is_failure_def is_enrichment_def)
      with s have "counted st1" by blast
      then show "counted st2"
        by (simp add: counted_def st2_def is_failure_def is_enrichment_def)
    qed
    have f: "enrichedCount st2 + failedCount st2 = enrichedCount st + failedCount st + length batch"
      using s by (simp add: st2_def st0_def results_def)
    note ih = "1.IH" [OF True batch_def results_def st1_def [unfolded st0_def] st2_def fails_rest]
    have g: "(\<exists>j \<in> set (drop i jobs). row_id j = x)
               \<longrightarrow> (\<exists>j \<in> set batch. row_id j = x) \<or> (\<exists>j \<in> set (drop (i + BATCH_SIZE) jobs). row_id j = x)"
      using split by auto
    show ?thesis
      unfolding unfold using ih a b c d e f g len by auto
  qed
qed




text \<open>The selection keeps the ids of the candidates distinct.\<close>

lemma candidates_distinct:
  assumes "distinct (map row_id tbl)"
  shows "distinct (map row_id (getJobsNeedingEnrichment env tbl))"
proof -
  let ?sel = "order_by_added_at_desc (filter (needs_enrichment (sql_like env)) tbl)"
  from assms have "distinct (map row_id (filter (needs_enrichment (sql_like env)) tbl))"
    by (rule distinct_map_filter)
  then have "distinct (map row_id ?sel)"
    by (simp add: order_by_added_at_desc_def distinct_map)
  then have "distinct (take 100 (map row_id ?sel))"
    by (rule distinct_take)
  then show ?thesis
    by (simp add: getJobsNeedingEnrichment_def take_map)
qed

text \<open>
  C3. For a candidate job whose every attempt yields a description shorter than 50
  characters, in a run whose browser launches, over a table with distinct ids:
  \<open>fetchJobDescription\<close> makes exactly \<open>MAX_RETRIES + 1\<close> attempts and returns \<open>null\<close>; the
  run returns a summary whose \<open>failed\<close> and \<open>enriched\<close> count the failure and the
  enrichment events of the log and add up to \<open>total\<close>; the job is logged as a failed
  fetch and never as enriched; and the description stored under its id is the one
  stored before the run.
\<close>

theorem enrichment_retry_bound:
  assumes cand: "job \<in> set (getJobsNeedingEnrichment env tbl)"
      and short: "\<forall>k. too_short (attempts env job k)"
      and launch: "launch_ok env"
      and ids: "distinct (map row_id tbl)"
  shows "fetchJobDescription (attempts env job) 0 = (None, MAX_RETRIES + 1)
     \<and> (\<exists>s. fst (enrichJobDescriptions env tbl) = Inr s
            \<and> failed s = length (filter is_failure (snd (snd (enrichJobDescriptions env tbl))))
            \<and> enriched s = length (filter is_enrichment (snd (snd (enrichJobDescriptions env tbl))))
            \<and> total s = enriched s + failed s)
     \<and> FailedFetch (row_id job) \<in> set (snd (snd (enrichJobDescriptions env tbl)))
     \<and> Enriched (row_id job) \<notin> set (snd (snd (enrichJobDescriptions env tbl)))
     \<and> map row_description (select_id (fst (snd (enrichJobDescriptions env tbl))) (row_id job))
         = map row_description (select_id tbl (row_id job))"
proof -
  define jobs where "jobs = getJobsNeedingEnrichment env tbl"
  define st0 where "st0 = \<lparr>jobs_table = tbl, enrichedCount = 0, failedCount = 0, run_log = []\<rparr>"
  define st where "st = batch_loop env jobs 0 st0"
  have fetch: "fetchJobDescription (attempts env job) 0 = (None, MAX_RETRIES + 1)"
    using fetch_always_short [OF short, of 0] by simp
  from cand have nonempty: "jobs \<noteq> []" by (auto simp: jobs_def)
  have run: "enrichJobDescriptions env tbl =
      (Inr \<lparr>total = length jobs, enriched = enrichedCount st, failed = failedCount st\<rparr>,
       jobs_table st, run_log st @ [BrowserClosed])"
    using nonempty launch
    by (simp add: enrichJobDescriptions_def Let_def jobs_def [symmetric] st_def st0_def)
  from candidates_distinct [OF ids] have "inj_on row_id (set jobs)"
    by (simp add: jobs_def distinct_map)
  with cand have "\<forall>j \<in> set jobs. row_id j = row_id job \<longrightarrow> j = job"
    by (auto simp: jobs_def dest: inj_onD)
  with fetch have fails:
    "\<forall>j \<in> set (drop 0 jobs). row_id j = row_id job \<longrightarrow> fst (fetchJobDescription (attempts env j) 0) = None"
    by auto
  have c0: "counted st0" by (simp add: counted_def st0_def)
  note inv = batch_loop_inv [OF fails, of st0, folded st_def]
  from inv c0 have counted: "counted st" by blast
  from inv have sum: "enrichedCount st + failedCount st = length jobs"
    by (simp add: st0_def)
  from inv cand have ff: "FailedFetch (row_id job) \<in> set (run_log st)"
    by (auto simp: jobs_def)
  from inv have ne: "Enriched (row_id job) \<notin> set (run_log st)"
    by (auto simp: st0_def)
  from inv have same: "map row_description (select_id (jobs_table st) (row_id job))
         = map row_description (select_id tbl (row_id job))"
    by (simp add: st0_def)
  show ?thesis
    using fetch counted sum ff ne same
    by (simp add: run counted_def is_failure_def is_enrichment_def)
qed

theorem enrichment_retry_bound_witness:
  "fetchJobDescription (attempts env_first_short (mk_row 0)) 0 = (None, 3)
     \<and> (\<exists>s. fst (enrichJobDescriptions env_first_short [mk_row 0, mk_row 1]) = Inr s
            \<and> failed s = length (filter is_failure (snd (snd (enrichJobDescriptions env_first_short [mk_row 0, mk_row 1]))))
            \<and> enriched s = length (filter is_enrichment (snd (snd (enrichJobDescriptions env_first_short [mk_row 0, mk_row 1]))))
            \<and> total s = enriched s + failed s)
     \<and> FailedFetch (row_id (mk_row 0)) \<in> set (snd (snd (enrichJobDescriptions env_first_short [mk_row 0, mk_row 1])))
     \<and> Enriched (row_id (mk_row 0)) \<notin> set (snd (snd (enrichJobDescriptions env_first_short [mk_row 0, mk_row 1])))
     \<and> map row_description (select_id (fst (snd (enrichJobDescriptions env_first_short [mk_row 0, mk_row 1]))) (row_id (mk_row 0)))
         = [Some ''View posting for details'']"
proof -
  have cand: "mk_row 0 \<in> set (getJobsNeedingEnrichment env_first_short [mk_row 0, mk_row 1])"
    by (simp add: getJobsNeedingEnrichment_def env_first_short_def needs_enrichment_def
          order_by_added_at_desc_def mk_row_def)
  have short: "\<forall>k. too_short (attempts env_first_short (mk_row 0) k)"
    by (simp add: env_first_short_def mk_row_def too_short_def extract_description_def
          short_page_def js_or_def)
  have launch: "launch_ok env_first_short"
    by (simp add: env_first_short_def)
  have ids: "distinct (map row_id [mk_row 0, mk_row 1])"
    by (simp add: mk_row_def)
  have stored: "map row_description (select_id [mk_row 0, mk_row 1] (row_id (mk_row 0)))
                  = [Some ''View posting for details'']"
    by (simp add: select_id_def mk_row_def)
  from enrichment_retry_bound [OF cand short launch ids] stored show ?thesis
    by (simp add: MAX_RETRIES_def)
qed


text \<open>Settling a batch adds no batch start and no cool-down to the log.\<close>

lemma settle_batch_cadence:
  "cadence (run_log (settle_batch env prs st)) = cadence (run_log st)"
proof (induction prs arbitrary: st)
  case Nil
  then show ?case by simp
next
  case (Cons pr rest)
  obtain job val where pr: "pr = (job, val)" by (cases pr)
  show ?case
    unfolding pr settle_batch.simps Cons.IH
    by (auto simp: cadence_def updateJobDescription_def split: option.splits)
qed

text \<open>One round of the batch loop, with more jobs behind the batch and without.\<close>

lemma batch_loop_cooldown_step:
  assumes "i + BATCH_SIZE < length jobs"
  shows "\<exists>st2. batch_loop env jobs i st = batch_loop env jobs (i + BATCH_SIZE) st2
           \<and> cadence (run_log st2) =
               cadence (run_log st) @ [BatchStarted (map row_id (take BATCH_SIZE (drop i jobs))), CoolDown]"
proof -
  define batch where "batch = take BATCH_SIZE (drop i jobs)"
  define results where "results = map (\<lambda>job. fst (fetchJobDescription (attempts env job) 0)) batch"
  define st0 where "st0 = st\<lparr>run_log := run_log st @ [BatchStarted (map row_id batch)]\<rparr>"
  define st1 where "st1 = settle_batch env (zip batch results) st0"
  define st2 where "st2 = st1\<lparr>run_log := run_log st1 @ [CoolDown]\<rparr>"
  have "batch_loop env jobs i st = batch_loop env jobs (i + BATCH_SIZE) st2"
    using assms
    by (subst batch_loop.simps) (simp add: Let_def batch_def results_def st0_def st1_def st2_def)
  moreover have "cadence (run_log st1) = cadence (run_log st0)"
    by (simp add: st1_def settle_batch_cadence)
  then have "cadence (run_log st2) = cadence (run_log st) @ [BatchStarted (map row_id batch), CoolDown]"
    by (simp add: st2_def st0_def cadence_def)
  ultimately show ?thesis unfolding batch_def by blast
qed

lemma batch_loop_last_step:
  assumes "i < length jobs" and "\<not> i + BATCH_SIZE < length jobs"
  shows "cadence (run_log (batch_loop env jobs i st)) =
           cadence (run_log st) @ [BatchStarted (map row_id (take BATCH_SIZE (drop i jobs)))]"
proof -
  define batch where "batch = take BATCH_SIZE (drop i jobs)"
  define results where "results = map (\<lambda>job. fst (fetchJobDescription (attempts env job) 0)) batch"
  define st0 where "st0 = st\<lparr>run_log := run_log st @ [BatchStarted (map row_id batch)]\<rparr>"
  define st1 where "st1 = settle_batch env (zip batch results) st0"
  have "batch_loop env jobs i st = batch_loop env jobs (i + BATCH_SIZE) st1"
    using assms
    by (subst batch_loop.simps) (simp add: Let_def batch_def results_def st0_def st1_def)
  also have "\<dots> = st1"
    using assms by (subst batch_loop.simps) simp
  finally have "batch_loop env jobs i st = st1" .
  moreover have "cadence (run_log st1) = cadence (run_log st0)"
    by (simp add: st1_def settle_batch_cadence)
  ultimately show ?thesis
    by (simp add: st0_def cadence_def batch_def)
qed

text \<open>
  C4. With twelve candidates and a browser that launches, the batches and cool-downs of
  the run are, in this order: the first five candidates, a cool-down, the next five, a
  cool-down, the last two; the batches have sizes 5, 5 and 2 and nothing but the
  closing of the browser follows the last batch.
\<close>

theorem batch_cadence_12_by_5:
  assumes twelve: "length (getJobsNeedingEnrichment env tbl) = 12"
      and launch: "launch_ok env"
  shows "cadence (snd (snd (enrichJobDescriptions env tbl))) =
           [BatchStarted (map row_id (take 5 (getJobsNeedingEnrichment env tbl))),
            CoolDown,
            BatchStarted (map row_id (take 5 (drop 5 (getJobsNeedingEnrichment env tbl)))),
            CoolDown,
            BatchStarted (map row_id (drop 10 (getJobsNeedingEnrichment env tbl)))]
       \<and> map length [take 5 (getJobsNeedingEnrichment env tbl),
                      take 5 (drop 5 (getJobsNeedingEnrichment env tbl)),
                      drop 10 (getJobsNeedingEnrichment env tbl)] = [5, 5, 2]
       \<and> last (snd (snd (enrichJobDescriptions env tbl))) = BrowserClosed"
proof -
  define jobs where "jobs = getJobsNeedingEnrichment env tbl"
  define st0 where "st0 = \<lparr>jobs_table = tbl, enrichedCount = 0, failedCount = 0, run_log = []\<rparr>"
  have len: "length jobs = 12" using twelve by (simp add: jobs_def)
  then have nonempty: "jobs \<noteq> []" by auto
  have run: "snd (snd (enrichJobDescriptions env tbl)) = run_log (batch_loop env jobs 0 st0) @ [BrowserClosed]"
    using nonempty launch
    by (simp add: enrichJobDescriptions_def Let_def jobs_def [symmetric] st0_def)
  from batch_loop_cooldown_step [of 0 jobs env st0] len
  obtain st1 where s1: "batch_loop env jobs 0 st0 = batch_loop env jobs 5 st1"
    and c1: "cadence (run_log st1) = [BatchStarted (map row_id (take 5 jobs)), CoolDown]"
    by (auto simp: BATCH_SIZE_def st0_def cadence_def)
  from batch_loop_cooldown_step [of 5 jobs env st1] len
  obtain st2 where s2: "batch_loop env jobs 5 st1 = batch_loop env jobs 10 st2"
    and c2: "cadence (run_log st2) = cadence (run_log st1) @ [BatchStarted (map row_id (take 5 (drop 5 jobs))), CoolDown]"
    by (auto simp: BATCH_SIZE_def)
  from batch_loop_last_step [of 10 jobs env st2] len
  have c3: "cadence (run_log (batch_loop env jobs 10 st2)) =
              cadence (run_log st2) @ [BatchStarted (map row_id (drop 10 jobs))]"
    by (simp add: BATCH_SIZE_def)
  have "cadence (run_log (batch_loop env jobs 0 st0) @ [BrowserClosed]) =
          [BatchStarted (map row_id (take 5 jobs)), CoolDown,
           BatchStarted (map row_id (take 5 (drop 5 jobs))), CoolDown,
           BatchStarted (map row_id (drop 10 jobs))]"
    using c1 c2 c3 unfolding s1 s2 by (simp add: cadence_def)
  then show ?thesis
    using len by (simp add: run jobs_def [symmetric])
qed

theorem batch_cadence_12_by_5_witness:
  "length (getJobsNeedingEnrichment env_first_short rows12) = 12
   \<and> cadence (snd (snd (enrichJobDescriptions env_first_short rows12))) =
           [BatchStarted (map row_id (take 5 (getJobsNeedingEnrichment env_first_short rows12))),
            CoolDown,
            BatchStarted (map row_id (take 5 (drop 5 (getJobsNeedingEnrichment env_first_short rows12)))),
            CoolDown,
            BatchStarted (map row_id (drop 10 (getJobsNeedingEnrichment env_first_short rows12)))]
   \<and> last (snd (snd (enrichJobDescriptions env_first_short rows12))) = BrowserClosed"
proof -
  have twelve: "length (getJobsNeedingEnrichment env_first_short rows12) = 12"
    by (simp add: getJobsNeedingEnrichment_def env_first_short_def needs_enrichment_def
          order_by_added_at_desc_def rows12_def mk_row_def)
  have launch: "launch_ok env_first_short"
    by (simp add: env_first_short_def)
  from batch_cadence_12_by_5 [OF twelve launch] twelve show ?thesis by simp
qed


text \<open>
  C10, as the claim states it, fails: with the store unreachable the selection query
  fails, \<open>getJobsNeedingEnrichment\<close> catches the error and returns no candidates, and
  the run returns the summary of a run that found nothing to do.
\<close>

theorem store_failure_counterexample:
  "enrichJobDescriptions env_store_down rows12
     = (Inr \<lparr>total = 0, enriched = 0, failed = 0\<rparr>, rows12, [])"
  by (simp add: enrichJobDescriptions_def getJobsNeedingEnrichment_def env_store_down_def
        env_first_short_def)

text \<open>
  C10, amended. When there are candidates and the browser cannot be launched, the run
  rejects with the launch error, having touched neither the table nor any job. When
  the selection query fails, the run returns the summary \<open>{total: 0, enriched: 0,
  failed: 0}\<close> and leaves the table as it is.
\<close>

theorem launch_failure_propagates:
  "(getJobsNeedingEnrichment env tbl \<noteq> [] \<and> \<not> launch_ok env
      \<longrightarrow> enrichJobDescriptions env tbl = (Inl LaunchFailed, tbl, []))
   \<and> (\<not> select_ok env
      \<longrightarrow> enrichJobDescriptions env tbl = (Inr \<lparr>total = 0, enriched = 0, failed = 0\<rparr>, tbl, []))"
  by (simp add: enrichJobDescriptions_def getJobsNeedingEnrichment_def Let_def)

theorem launch_failure_propagates_witness:
  "enrichJobDescriptions env_no_browser [mk_row 0] = (Inl LaunchFailed, [mk_row 0], [])
   \<and> enrichJobDescriptions env_store_down [mk_row 0]
       = (Inr \<lparr>total = 0, enriched = 0, failed = 0\<rparr>, [mk_row 0], [])"
proof -
  have cands: "getJobsNeedingEnrichment env_no_browser [mk_row 0] \<noteq> [] \<and> \<not> launch_ok env_no_browser"
    by (simp add: getJobsNeedingEnrichment_def env_no_browser_def env_first_short_def
          needs_enrichment_def order_by_added_at_desc_def mk_row_def)
  have down: "\<not> select_ok env_store_down"
    by (simp add: env_store_down_def env_first_short_def)
  from launch_failure_propagates [of env_no_browser "[mk_row 0]"] cands
  have "enrichJobDescriptions env_no_browser [mk_row 0] = (Inl LaunchFailed, [mk_row 0], [])"
    by blast
  moreover from launch_failure_propagates [of env_store_down "[mk_row 0]"] down
  have "enrichJobDescriptions env_store_down [mk_row 0]
       = (Inr \<lparr>total = 0, enriched = 0, failed = 0\<rparr>, [mk_row 0], [])"
    by blast
  ultimately show ?thesis by simp
qed

section \<open>The crawl scheduler: traversal order and Stop\<close>

declare scrapeNextLocation.simps [simp del] scrapeNextKeyword.simps [simp del]

declare scrapeNextLocation_call.simps [simp del] scrapeNextKeyword_call.simps [simp del]














text \<open>
  C6, as the claim states it, fails: the click arrives during the second search, after
  its navigation and before the settle timer fires. Both searches were issued, and the
  job of the second page is not among the results.
\<close>

theorem stop_before_settle_counterexample:
  "map_option allJobs (startBtn_click cfgAB (env_stop StopBeforeSettle)) = Some [0]
   \<and> map_option searches (startBtn_click cfgAB (env_stop StopBeforeSettle))
       = Some [(''A'', ''x''), (''A'', ''y'')]
   \<and> map_option (length \<circ> navigations) (startBtn_click cfgAB (env_stop StopBeforeSettle)) = Some 2
   \<and> found_jobs (env_stop StopBeforeSettle 0 1) = [1]"
  by (simp add: startBtn_click_def cfgAB_def env_stop_def found_jobs_def scrapeNextLocation.simps
        scrapeNextKeyword.simps scrapeCurrentPage_def stopBtn_click_def Let_def)

text \<open>
  C6, amended. When the user clicks Stop during a search step, the scheduler ends with
  that step: it is not running, no search after the current one is begun, and calling
  it again does nothing. The results collected before the step are kept. The results
  of the step itself are appended when the tab was navigated and the click came after
  the settle timer had fired (while the page was scraped or during the delay before
  the next search); a click before that skips the extraction.
\<close>

theorem stop_is_cooperative:
  assumes "isRunning st"
      and "currentLocationIndex st < length (selectedLocations cfg)"
      and "currentKeywordIndex st < length (config_keywords cfg)"
      and "stop (env (currentLocationIndex st) (currentKeywordIndex st)) \<noteq> NoStop"
  shows "\<not> isRunning (scrapeNextKeyword cfg env st)
         \<and> searches (scrapeNextKeyword cfg env st) = searches st @
              [(loc_name (selectedLocations cfg ! currentLocationIndex st),
                config_keywords cfg ! currentKeywordIndex st)]
         \<and> allJobs (scrapeNextKeyword cfg env st) = allJobs st @
              (if nav (env (currentLocationIndex st) (currentKeywordIndex st)) = NavOk
                  \<and> stop (env (currentLocationIndex st) (currentKeywordIndex st)) \<noteq> StopBeforeSettle
               then found_jobs (env (currentLocationIndex st) (currentKeywordIndex st)) else [])
         \<and> scrapeNextKeyword cfg env (scrapeNextKeyword cfg env st) = scrapeNextKeyword cfg env st"
proof -
  define r where "r = scrapeNextKeyword cfg env st"
  have step: "\<not> isRunning r
         \<and> searches r = searches st @
              [(loc_name (selectedLocations cfg ! currentLocationIndex st),
                config_keywords cfg ! currentKeywordIndex st)]
         \<and> allJobs r = allJobs st @
              (if nav (env (currentLocationIndex st) (currentKeywordIndex st)) = NavOk
                  \<and> stop (env (currentLocationIndex st) (currentKeywordIndex st)) \<noteq> StopBeforeSettle
               then found_jobs (env (currentLocationIndex st) (currentKeywordIndex st)) else [])"
    unfolding r_def using assms
    by (subst (1 2 3) scrapeNextKeyword.simps)
       (auto simp: Let_def stopBtn_click_def scrapeCurrentPage_def found_jobs_def
             split: navigation.splits scrape.splits)
  then have "scrapeNextKeyword cfg env r = r"
    by (subst scrapeNextKeyword.simps) simp
  with step show ?thesis unfolding r_def by simp
qed

theorem stop_is_cooperative_witness:
  "\<not> isRunning (scrapeNextKeyword cfgAB (env_stop StopWhileScraping) first_search_done)
   \<and> searches (scrapeNextKeyword cfgAB (env_stop StopWhileScraping) first_search_done)
       = [(''A'', ''x''), (''A'', ''y'')]
   \<and> allJobs (scrapeNextKeyword cfgAB (env_stop StopWhileScraping) first_search_done) = [0, 1]
   \<and> allJobs (scrapeNextKeyword cfgAB (env_stop StopBeforeSettle) first_search_done) = [0]"
proof -
  have running: "isRunning first_search_done"
    by (simp add: first_search_done_def)
  have loc: "currentLocationIndex first_search_done < length (selectedLocations cfgAB)"
    by (simp add: first_search_done_def cfgAB_def)
  have kw: "currentKeywordIndex first_search_done < length (config_keywords cfgAB)"
    by (simp add: first_search_done_def cfgAB_def)
  have late: "stop (env_stop StopWhileScraping (currentLocationIndex first_search_done)
                 (currentKeywordIndex first_search_done)) \<noteq> NoStop"
    by (simp add: first_search_done_def env_stop_def)
  have early: "stop (env_stop StopBeforeSettle (currentLocationIndex first_search_done)
                 (currentKeywordIndex first_search_done)) \<noteq> NoStop"
    by (simp add: first_search_done_def env_stop_def)
  from stop_is_cooperative
         [where st = first_search_done and cfg = cfgAB and env = "env_stop StopWhileScraping",
          OF running loc kw late]
       stop_is_cooperative
         [where st = first_search_done and cfg = cfgAB and env = "env_stop StopBeforeSettle",
          OF running loc kw early]
  show ?thesis
    by (simp add: first_search_done_def env_stop_def cfgAB_def found_jobs_def)
qed

section \<open>The field extractor: salary and selector cascades\<close>

text \<open>
  C7. In the text \<open>$101K/yr - $120.4K/yr\<close>, a middle dot, \<open>401k\<close>, the salary pattern
  matches \<open>$101K/yr - $120.4K/yr\<close> first; cleaning the text gives that match; and a card
  that carries the text in its metadata block, in a left-to-right span or in a metadata
  list item gets that salary.
\<close>

theorem salary_extraction_example:
  \<open>js_match salary_regex salary_text = Some ''$101K/yr - $120.4K/yr''
   \<and> clean_salary salary_text = ''$101K/yr - $120.4K/yr''
   \<and> linkedin_salary (card_with [(''.artdeco-entity-lockup__metadata'', salary_text)])
       = ''$101K/yr - $120.4K/yr''
   \<and> linkedin_salary (card_with [(''span[dir="ltr"]'', salary_text)])
       = ''$101K/yr - $120.4K/yr''
   \<and> linkedin_salary
        (card_with [(''.job-card-container__metadata-wrapper li, .artdeco-entity-lockup__metadata li'',
                     salary_text)])
       = ''$101K/yr - $120.4K/yr''\<close>
  by code_simp

lemma first_match_append:
  "\<forall>x\<in>set xs. q x = None \<Longrightarrow> first_match q (xs @ zs) = first_match q zs"
  by (induction xs) auto

lemma first_nonempty_append:
  "\<forall>x\<in>set xs. qa x = [] \<Longrightarrow> first_nonempty qa (xs @ zs) = first_nonempty qa zs"
  by (induction xs) auto

text \<open>
  C8. With the card selectors \<open>xs @ s # ys\<close> in which no selector of \<open>xs\<close> matches and \<open>s\<close>
  does, \<open>scrapeLinkedIn\<close> returns the records of exactly the cards that \<open>s\<close> yields, in their
  order, whatever the selectors of \<open>ys\<close> match. With the title selectors \<open>ts @ t # ts'\<close> in
  which no selector of \<open>ts\<close> matches a card and \<open>t\<close> does, the record of the card carries
  the trimmed text of the element that \<open>t\<close> matches as its title (and the card gives no
  record when that text is the sentinel); the same holds for the company and the
  location of every record of the card. In general, a field cascade gives the text of
  its first matching selector and a card cascade the elements of its first selector
  with a match.
\<close>

theorem selector_cascade_short_circuit:
  "((\<forall>x\<in>set xs. doc x = []) \<and> doc s \<noteq> [] \<and> jobCardSelectors = xs @ s # ys
      \<longrightarrow> scrapeLinkedIn rnd doc
            = concat (map (\<lambda>(i, c). scrape_card (rnd i) c) (enumerate 0 (doc s))))
   \<and> ((\<forall>x\<in>set ts. querySelector c x = None) \<and> querySelector c t = Some el
        \<and> titleSelectors = ts @ t # ts'
      \<longrightarrow> map li_title (scrape_card r c)
            = (if js_trim (innerText el) \<noteq> ''Unknown Title'' then [js_trim (innerText el)] else []))
   \<and> ((\<forall>x\<in>set cs. querySelector c x = None) \<and> querySelector c cn = Some elc
        \<and> companySelectors = cs @ cn # cs'
      \<longrightarrow> (\<forall>job\<in>set (scrape_card r c). li_company job = js_trim (innerText elc)))
   \<and> ((\<forall>x\<in>set ls. querySelector c x = None) \<and> querySelector c l = Some ell
        \<and> locationSelectors = ls @ l # ls'
      \<longrightarrow> (\<forall>job\<in>set (scrape_card r c). li_location job = js_trim (innerText ell)))
   \<and> ((\<forall>x\<in>set xs. querySelector c x = None) \<and> querySelector c s = Some el
      \<longrightarrow> field_text c (xs @ s # ys) sentinel = js_trim (innerText el))
   \<and> ((\<forall>x\<in>set xs. doc x = []) \<and> doc s \<noteq> []
      \<longrightarrow> first_nonempty doc (xs @ s # ys) = doc s)"
proof (intro conjI impI)
  assume a: "(\<forall>x\<in>set xs. doc x = []) \<and> doc s \<noteq> [] \<and> jobCardSelectors = xs @ s # ys"
  then have "(\<forall>x\<in>set xs. doc x = []) \<and> doc s \<noteq> []"
    by blast
  then have "first_nonempty doc (xs @ s # ys) = doc s"
    by (simp add: first_nonempty_append)
  with a have "linkedin_job_cards doc = doc s"
    unfolding linkedin_job_cards_def by metis
  then show "scrapeLinkedIn rnd doc
            = concat (map (\<lambda>(i, c). scrape_card (rnd i) c) (enumerate 0 (doc s)))"
    by (simp add: scrapeLinkedIn_def)
next
  assume a: "(\<forall>x\<in>set ts. querySelector c x = None) \<and> querySelector c t = Some el
        \<and> titleSelectors = ts @ t # ts'"
  then have "(\<forall>x\<in>set ts. querySelector c x = None) \<and> querySelector c t = Some el"
    by blast
  then have "first_match (querySelector c) (ts @ t # ts') = Some el"
    by (simp add: first_match_append)
  with a have "first_match (querySelector c) titleSelectors = Some el"
    by metis
  then have "linkedin_title c = js_trim (innerText el)"
    by (simp add: linkedin_title_def field_text_def)
  then show "map li_title (scrape_card r c)
            = (if js_trim (innerText el) \<noteq> ''Unknown Title'' then [js_trim (innerText el)] else [])"
    by (simp add: scrape_card_def)
next
  assume a: "(\<forall>x\<in>set cs. querySelector c x = None) \<and> querySelector c cn = Some elc
        \<and> companySelectors = cs @ cn # cs'"
  then have "(\<forall>x\<in>set cs. querySelector c x = None) \<and> querySelector c cn = Some elc"
    by blast
  then have "first_match (querySelector c) (cs @ cn # cs') = Some elc"
    by (simp add: first_match_append)
  with a have "first_match (querySelector c) companySelectors = Some elc"
    by metis
  then have "linkedin_company c = js_trim (innerText elc)"
    by (simp add: linkedin_company_def field_text_def)
  then show "\<forall>job\<in>set (scrape_card r c). li_company job = js_trim (innerText elc)"
    by (simp add: scrape_card_def)
next
  assume a: "(\<forall>x\<in>set ls. querySelector c x = None) \<and> querySelector c l = Some ell
        \<and> locationSelectors = ls @ l # ls'"
  then have "(\<forall>x\<in>set ls. querySelector c x = None) \<and> querySelector c l = Some ell"
    by blast
  then have "first_match (querySelector c) (ls @ l # ls') = Some ell"
    by (simp add: first_match_append)
  with a have "first_match (querySelector c) locationSelectors = Some ell"
    by metis
  then have "linkedin_location c = js_trim (innerText ell)"
    by (simp add: linkedin_location_def field_text_def)
  then show "\<forall>job\<in>set (scrape_card r c). li_location job = js_trim (innerText ell)"
    by (simp add: scrape_card_def)
next
  assume "(\<forall>x\<in>set xs. querySelector c x = None) \<and> querySelector c s = Some el"
  then show "field_text c (xs @ s # ys) sentinel = js_trim (innerText el)"
    by (simp add: field_text_def first_match_append)
next
  assume "(\<forall>x\<in>set xs. doc x = []) \<and> doc s \<noteq> []"
  then show "first_nonempty doc (xs @ s # ys) = doc s"
    by (simp add: first_nonempty_append)
qed

theorem selector_cascade_short_circuit_witness:
  "querySelector two_tier_card ''.base-card__full-link'' = Some (element_with_text ''Tier two'')
   \<and> querySelector two_tier_card ''.base-search-card__subtitle'' = Some (element_with_text ''Other'')
   \<and> querySelector two_tier_card ''.job-search-card__location'' = Some (element_with_text ''Elsewhere'')
   \<and> length (two_tier_doc ''div[data-job-id]'') = 2
   \<and> map (\<lambda>job. (li_title job, li_company job, li_location job))
         (scrapeLinkedIn (\<lambda>i. ''r'') two_tier_doc)
       = [(''Tier one'', ''Acme'', ''Remote, US'')]"
proof -
  have q: "querySelector two_tier_card ''.job-card-list__title--link'' = None"
      "querySelector two_tier_card ''.job-card-list__title'' = Some (element_with_text '' Tier one '')"
      "querySelector two_tier_card ''.base-card__full-link'' = Some (element_with_text ''Tier two'')"
      "querySelector two_tier_card ''.artdeco-entity-lockup__subtitle'' = None"
      "querySelector two_tier_card ''.job-card-container__company-name'' = Some (element_with_text ''Acme '')"
      "querySelector two_tier_card ''.base-search-card__subtitle'' = Some (element_with_text ''Other'')"
      "querySelector two_tier_card ''.job-card-container__metadata-wrapper li'' = None"
      "querySelector two_tier_card ''.job-card-container__metadata-item'' = Some (element_with_text ''Remote, US'')"
      "querySelector two_tier_card ''.job-search-card__location'' = Some (element_with_text ''Elsewhere'')"
    by (simp_all add: querySelector_def two_tier_card_def card_with_def)
  have d: "\<forall>x\<in>set [''.job-card-container'']. two_tier_doc x = []"
      "two_tier_doc ''.jobs-search-results__list-item'' = [two_tier_card]"
      "length (two_tier_doc ''div[data-job-id]'') = 2"
    by (simp_all add: two_tier_doc_def)
  have sels:
    "jobCardSelectors = [''.job-card-container''] @ ''.jobs-search-results__list-item'' # drop 2 jobCardSelectors"
    "titleSelectors = [''.job-card-list__title--link''] @ ''.job-card-list__title'' # drop 2 titleSelectors"
    "companySelectors = [''.artdeco-entity-lockup__subtitle''] @ ''.job-card-container__company-name''
                          # drop 2 companySelectors"
    "locationSelectors = [''.job-card-container__metadata-wrapper li'']
                           @ ''.job-card-container__metadata-item'' # drop 2 locationSelectors"
    by (simp_all add: jobCardSelectors_def titleSelectors_def companySelectors_def locationSelectors_def)
  have trims: "js_trim (innerText (element_with_text '' Tier one '')) = ''Tier one''"
      "js_trim (innerText (element_with_text ''Acme '')) = ''Acme''"
      "js_trim (innerText (element_with_text ''Remote, US'')) = ''Remote, US''"
    by (simp_all add: element_with_text_def js_trim_def js_space_def)
  note inst = selector_cascade_short_circuit
         [where doc = two_tier_doc and xs = "[''.job-card-container'']"
            and s = "''.jobs-search-results__list-item''" and ys = "drop 2 jobCardSelectors"
            and rnd = "\<lambda>i. ''r''" and r = "''r''" and c = two_tier_card
            and ts = "[''.job-card-list__title--link'']" and t = "''.job-card-list__title''"
            and ts' = "drop 2 titleSelectors" and el = "element_with_text '' Tier one ''"
            and cs = "[''.artdeco-entity-lockup__subtitle'']"
            and cn = "''.job-card-container__company-name''" and cs' = "drop 2 companySelectors"
            and elc = "element_with_text ''Acme ''"
            and ls = "[''.job-card-container__metadata-wrapper li'']"
            and l = "''.job-card-container__metadata-item''" and ls' = "drop 2 locationSelectors"
            and ell = "element_with_text ''Remote, US''"]
  from inst d sels(1)
  have cards: "scrapeLinkedIn (\<lambda>i. ''r'') two_tier_doc = scrape_card ''r'' two_tier_card"
    by simp
  from inst q sels(2) trims
  have title: "map li_title (scrape_card ''r'' two_tier_card) = [''Tier one'']"
    by simp
  from inst q sels(3) trims
  have company: "\<forall>job\<in>set (scrape_card ''r'' two_tier_card). li_company job = ''Acme''"
    by simp
  from inst q sels(4) trims
  have location: "\<forall>job\<in>set (scrape_card ''r'' two_tier_card). li_location job = ''Remote, US''"
    by simp
  from title obtain job where one: "scrape_card ''r'' two_tier_card = [job]"
    by (cases "scrape_card ''r'' two_tier_card") auto
  with title company location cards q d show ?thesis
    by simp
qed

end
